theory Spec2Isabelle
  imports Complex_Main "HOL-Library.AList" "HOL-Library.Sublist"
begin

section \<open>Python values, exceptions and the helpers the source relies on\<close>

text \<open>
  The agent is dynamically typed: the oracle's JSON, the upstream JSON of PokeAPI and the
  scratchpad \<^verbatim>\<open>collected_data\<close> hold arbitrary Python values. \<open>pyval\<close> is the type of
  these values: the JSON values, and the \<^verbatim>\<open>PokemonData\<close> model objects that two dispatcher
  branches store undumped. A Python float is idealised as the rational it denotes (IEEE
  rounding is not modelled). Strings are byte strings; case mapping and white space are
  the ASCII ones.

  \<^verbatim>\<open>PokemonData\<close> (models.py) is the typed record below; its field names carry the
  prefix \<open>pd_\<close>. The field \<^verbatim>\<open>evolution_chain\<close> is assigned without validation, so it
  holds arbitrary values.
\<close>

datatype 'v pokemon_data = PokemonData
  (pd_id: int) (pd_name: string) (pd_types: "string list")
  (pd_height: rat) (pd_weight: rat) (pd_base_experience: int)
  (pd_abilities: "string list") (pd_stats: "(string \<times> int) list")
  (pd_moves: "string list") (pd_sprites: "(string \<times> string) list")
  (pd_description: "string option") (pd_evolution_chain: "'v list option")
  (pd_location_areas: "string list option")

datatype pyval =
    PNone
  | PBool bool
  | PInt int
  | PFloat rat
  | PStr string
  | PList "pyval list"
  | PDict "(string \<times> pyval) list"
  | PModel "pyval pokemon_data"

text \<open>
  Exceptions are values. \<open>LibraryError\<close> stands for whatever a library outside the
  repository raises (the HTTP clients, the oracle client, \<^verbatim>\<open>json.loads\<close>).
\<close>

datatype pyexc =
    KeyError string
  | IndexError
  | TypeError
  | AttributeError
  | ValidationError
  | RuntimeError string
  | UnboundLocalError string
  | HTTPError nat
  | LibraryError string

definition and_then :: "'e + 'a \<Rightarrow> ('a \<Rightarrow> 'e + 'b) \<Rightarrow> 'e + 'b" where
  "and_then r f = (case r of Inl e \<Rightarrow> Inl e | Inr x \<Rightarrow> f x)"

lemma and_then_simps [simp]:
  "and_then (Inl e) f = Inl e"
  "and_then (Inr x) f = f x"
  by (simp_all add: and_then_def)

primrec map_exc :: "('a \<Rightarrow> 'e + 'b) \<Rightarrow> 'a list \<Rightarrow> 'e + 'b list" where
  "map_exc f [] = Inr []"
| "map_exc f (x # xs) =
     and_then (f x) (\<lambda>y. and_then (map_exc f xs) (\<lambda>ys. Inr (y # ys)))"

text \<open>Truthiness, as \<^verbatim>\<open>if x:\<close> and \<^verbatim>\<open>if not x:\<close> test it.\<close>

fun py_truthy :: "pyval \<Rightarrow> bool" where
  "py_truthy PNone = False"
| "py_truthy (PBool b) = b"
| "py_truthy (PInt n) = (n \<noteq> 0)"
| "py_truthy (PFloat f) = (f \<noteq> 0)"
| "py_truthy (PStr s) = (s \<noteq> [])"
| "py_truthy (PList xs) = (xs \<noteq> [])"
| "py_truthy (PDict kvs) = (kvs \<noteq> [])"
| "py_truthy (PModel m) = True"

text \<open>\<^verbatim>\<open>x[key]\<close> with a string key: only a dict can be subscripted by a string.\<close>

fun py_getitem :: "pyval \<Rightarrow> string \<Rightarrow> pyexc + pyval" where
  "py_getitem (PDict kvs) k =
     (case map_of kvs k of None \<Rightarrow> Inl (KeyError k) | Some v \<Rightarrow> Inr v)"
| "py_getitem v k = Inl TypeError"

text \<open>\<^verbatim>\<open>x.get(key, default)\<close>: only a dict has the method.\<close>

fun dict_get :: "pyval \<Rightarrow> string \<Rightarrow> pyval \<Rightarrow> pyexc + pyval" where
  "dict_get (PDict kvs) k d = Inr (case map_of kvs k of None \<Rightarrow> d | Some v \<Rightarrow> v)"
| "dict_get v k d = Inl AttributeError"

text \<open>
  Iteration (\<^verbatim>\<open>for x in v\<close>): a list yields its elements, a dict its keys, a string its
  characters; nothing else that a JSON payload holds is iterable.
\<close>

fun py_iter :: "pyval \<Rightarrow> pyexc + pyval list" where
  "py_iter (PList xs) = Inr xs"
| "py_iter (PDict kvs) = Inr (map (\<lambda>kv. PStr (fst kv)) kvs)"
| "py_iter (PStr s) = Inr (map (\<lambda>c. PStr [c]) s)"
| "py_iter v = Inl TypeError"

text \<open>The slice \<^verbatim>\<open>x[:n]\<close>.\<close>

fun py_slice :: "nat \<Rightarrow> pyval \<Rightarrow> pyexc + pyval" where
  "py_slice n (PList xs) = Inr (PList (take n xs))"
| "py_slice n (PStr s) = Inr (PStr (take n s))"
| "py_slice n v = Inl TypeError"

text \<open>\<^verbatim>\<open>x / 10.0\<close>: defined on the numbers (a bool is an int in Python).\<close>

fun py_truediv10 :: "pyval \<Rightarrow> pyexc + rat" where
  "py_truediv10 (PInt n) = Inr (of_int n / 10)"
| "py_truediv10 (PFloat f) = Inr (f / 10)"
| "py_truediv10 (PBool b) = Inr ((if b then 1 else 0) / 10)"
| "py_truediv10 v = Inl TypeError"

text \<open>\<^verbatim>\<open>s.lower()\<close> on ASCII.\<close>

definition lower_char :: "char \<Rightarrow> char" where
  "lower_char c =
     (case map_of (zip ''ABCDEFGHIJKLMNOPQRSTUVWXYZ'' ''abcdefghijklmnopqrstuvwxyz'') c of
        None \<Rightarrow> c | Some d \<Rightarrow> d)"

definition py_lower :: "string \<Rightarrow> string" where
  "py_lower s = map lower_char s"

text \<open>\<^verbatim>\<open>s.lower()\<close> on an arbitrary value: only a string has the method.\<close>

fun lower_of :: "pyval \<Rightarrow> pyexc + string" where
  "lower_of (PStr s) = Inr (py_lower s)"
| "lower_of v = Inl AttributeError"

text \<open>\<^verbatim>\<open>str(n)\<close> for an integer: its decimal digits, with a leading minus sign.\<close>

definition digit_char :: "nat \<Rightarrow> char" where
  "digit_char d = ''0123456789'' ! d"

fun str_nat :: "nat \<Rightarrow> string" where
  "str_nat n = (if n < 10 then [digit_char n] else str_nat (n div 10) @ [digit_char (n mod 10)])"

declare str_nat.simps [simp del]

definition str_int :: "int \<Rightarrow> string" where
  "str_int i = (if i < 0 then CHR ''-'' # str_nat (nat (- i)) else str_nat (nat i))"

text \<open>\<^verbatim>\<open>s.split(sep)\<close> for a one-character separator, and \<^verbatim>\<open>parts[-2]\<close>.\<close>

fun py_split :: "char \<Rightarrow> string \<Rightarrow> string list" where
  "py_split sep [] = [[]]"
| "py_split sep (c # cs) =
     (if c = sep then [] # py_split sep cs
      else (case py_split sep cs of [] \<Rightarrow> [[c]] | p # ps \<Rightarrow> (c # p) # ps))"

definition second_last :: "'a list \<Rightarrow> pyexc + 'a" where
  "second_last xs = (if 2 \<le> length xs then Inr (xs ! (length xs - 2)) else Inl IndexError)"

text \<open>\<^verbatim>\<open>s.strip()\<close>: the ASCII white space at both ends is dropped.\<close>

definition py_isspace :: "char \<Rightarrow> bool" where
  "py_isspace c = (c \<in> set [CHR '' '', CHR 0x09, CHR 0x0A, CHR 0x0B, CHR 0x0C, CHR 0x0D,
                              CHR 0x1C, CHR 0x1D, CHR 0x1E, CHR 0x1F])"

definition py_strip :: "string \<Rightarrow> string" where
  "py_strip s = rev (dropWhile py_isspace (rev (dropWhile py_isspace s)))"

text \<open>\<^verbatim>\<open>sep.join(v)\<close> needs an iterable of strings; only whether it raises matters here.\<close>

definition is_str :: "pyval \<Rightarrow> bool" where
  "is_str v = (case v of PStr s \<Rightarrow> True | _ \<Rightarrow> False)"

definition py_join_ok :: "pyval \<Rightarrow> bool" where
  "py_join_ok v = (case py_iter v of Inl e \<Rightarrow> False | Inr xs \<Rightarrow> list_all is_str xs)"

text \<open>
  \<^verbatim>\<open>json.dumps\<close> raises TypeError on a value that holds a model object; every other
  value of \<open>pyval\<close> is serialisable.
\<close>

fun json_serializable :: "pyval \<Rightarrow> bool" where
  "json_serializable (PList xs) = list_all json_serializable xs"
| "json_serializable (PDict kvs) = list_all (\<lambda>kv. json_serializable (snd kv)) kvs"
| "json_serializable (PModel m) = False"
| "json_serializable v = True"

section \<open>The environment: the oracle, the network and the libraries\<close>

text \<open>
  One oracle reply (\<^verbatim>\<open>response.choices[0].message\<close>): its text and its tool calls, either
  of which may be \<^verbatim>\<open>None\<close>. A tool call carries a name and an arguments string.
\<close>

record tool_call =
  function_name :: string
  function_arguments :: "string option"

record completion =
  content :: "string option"
  tool_calls :: "tool_call list option"

text \<open>What an HTTP request does: it raises, or it answers with a status and a body whose
  \<^verbatim>\<open>.json()\<close> yields a value or raises.\<close>

datatype http_result = HttpRaise pyexc | HttpResponse nat "pyexc + pyval"

text \<open>
  Everything outside the repository is a parameter:
  \<^item> \<open>llm n\<close>: what the \<open>n\<close>-th call of \<^verbatim>\<open>chat.completions.create\<close> of a run does;
  \<^item> \<open>json_loads\<close>: \<^verbatim>\<open>json.loads\<close>;
  \<^item> \<open>aiohttp_get\<close>, \<open>requests_get\<close>: the upstream API, by URL (and query parameters);
  \<^item> the four public methods of the web collaborator (web_searcher.py scrapes HTML and
    never raises; with scraping disabled, the default, its results are empty);
  \<^item> \<open>py_repr\<close>: how an f-string prints a float, a list, a dict or an object;
  \<^item> \<open>exception_text\<close>: \<^verbatim>\<open>str(e)\<close> of an exception raised by the interpreter or a library.
\<close>

record env =
  llm :: "nat \<Rightarrow> pyexc + completion"
  json_loads :: "string \<Rightarrow> pyexc + pyval"
  aiohttp_get :: "string \<Rightarrow> http_result"
  requests_get :: "string \<Rightarrow> (string \<times> pyval) list \<Rightarrow> http_result"
  search_pokemon_info :: "pyval \<Rightarrow> pyval list"
  search_training_tips :: "pyval \<Rightarrow> pyval"
  search_competitive_info :: "pyval \<Rightarrow> pyval"
  search_location_info :: "pyval \<Rightarrow> pyval"
  py_repr :: "pyval \<Rightarrow> string"
  exception_text :: "pyexc \<Rightarrow> string"

definition py_str :: "env \<Rightarrow> pyval \<Rightarrow> string" where
  "py_str ev v =
     (case v of
        PStr s \<Rightarrow> s
      | PInt n \<Rightarrow> str_int n
      | PBool b \<Rightarrow> (if b then ''True'' else ''False'')
      | PNone \<Rightarrow> ''None''
      | _ \<Rightarrow> py_repr ev v)"

definition exc_str :: "env \<Rightarrow> pyexc \<Rightarrow> string" where
  "exc_str ev e = (case e of RuntimeError m \<Rightarrow> m | _ \<Rightarrow> exception_text ev e)"

text \<open>
  The effects outside the research context: the aiohttp session of the client (absent,
  open or closed), the log (warnings and errors, with their level; informational lines
  are left out), and the trace of oracle calls, by the phase that made them.
\<close>

datatype session_state = NoSession | SessionOpen | SessionClosed

datatype log_level = WARNING | ERROR

datatype phase = Clarify | ToolCalls | Synthesis | Analyze | Report

record world =
  session :: session_state
  logged :: "(log_level \<times> string) list"
  llm_calls :: "phase list"

definition log_msg :: "log_level \<Rightarrow> string \<Rightarrow> world \<Rightarrow> world" where
  "log_msg lvl msg w = w\<lparr>logged := logged w @ [(lvl, msg)]\<rparr>"

section \<open>The Data Fetch Adapter (pokeapi\_tools.py)\<close>

definition POKEAPI_BASE_URL :: string where
  "POKEAPI_BASE_URL = ''https://pokeapi.co/api/v2''"

text \<open>
  \<^verbatim>\<open>_make_request\<close>: creates the session when there is none; a status other than 200 is
  logged as a warning, an exception (of the request or of \<^verbatim>\<open>response.json()\<close>) as an
  error; both return \<^verbatim>\<open>None\<close>. A closed session makes aiohttp raise inside the \<^verbatim>\<open>try\<close>.
\<close>

definition api_url :: "string \<Rightarrow> string" where
  "api_url endpoint = POKEAPI_BASE_URL @ ''/'' @ endpoint"

definition make_request :: "env \<Rightarrow> world \<Rightarrow> string \<Rightarrow> pyval \<times> world" where
  "make_request ev w endpoint =
     (let w1 = (if session w = NoSession then w\<lparr>session := SessionOpen\<rparr> else w);
          url = api_url endpoint;
          failed = (\<lambda>e. (PNone,
                     log_msg ERROR (''Error making PokeAPI request to '' @ url @ '': '' @ exc_str ev e) w1))
      in case (if session w1 = SessionClosed then HttpRaise (RuntimeError ''Session is closed'')
               else aiohttp_get ev url) of
           HttpRaise e \<Rightarrow> failed e
         | HttpResponse status body \<Rightarrow>
             (if status = 200 then (case body of Inl e \<Rightarrow> failed e | Inr d \<Rightarrow> (d, w1))
              else (PNone,
                    log_msg WARNING (''PokeAPI request failed: '' @ str_nat status @ '' for '' @ url) w1)))"

text \<open>The comprehension \<^verbatim>\<open>[t[k]["name"] for t in v]\<close>.\<close>

definition names_of :: "string \<Rightarrow> pyval \<Rightarrow> pyexc + pyval list" where
  "names_of k v =
     and_then (py_iter v)
       (map_exc (\<lambda>t. and_then (py_getitem t k) (\<lambda>u. py_getitem u ''name'')))"

text \<open>
  The comprehension \<^verbatim>\<open>{s["stat"]["name"]: s["base_stat"] for s in v}\<close>: a list or a dict
  cannot be a key.
\<close>

definition hashable :: "pyval \<Rightarrow> bool" where
  "hashable v = (case v of PList xs \<Rightarrow> False | PDict kvs \<Rightarrow> False | _ \<Rightarrow> True)"

definition stats_of :: "pyval \<Rightarrow> pyexc + (pyval \<times> pyval) list" where
  "stats_of v =
     and_then (py_iter v)
       (map_exc (\<lambda>s. and_then (and_then (py_getitem s ''stat'') (\<lambda>u. py_getitem u ''name''))
                        (\<lambda>k. and_then (py_getitem s ''base_stat'')
                        (\<lambda>b. if hashable k then Inr (k, b) else Inl TypeError))))"

definition sprites_of :: "pyval \<Rightarrow> pyexc + (string \<times> pyval) list" where
  "sprites_of data =
     map_exc (\<lambda>k. and_then (and_then (py_getitem data ''sprites'') (\<lambda>sp. py_getitem sp k))
                    (\<lambda>v. Inr (k, v)))
       [''front_default'', ''back_default'', ''front_shiny'', ''back_shiny'']"

text \<open>
  The validation of the \<^verbatim>\<open>PokemonData\<close> constructor, by the declared field types. A value
  of the declared type is accepted and any other rejected with one ValidationError; the
  coercions pydantic's lax mode applies to mistyped input (a numeric string for an int)
  are not modelled.
\<close>

definition as_int :: "pyval \<Rightarrow> int option" where
  "as_int v = (case v of PInt n \<Rightarrow> Some n | _ \<Rightarrow> None)"

definition as_str :: "pyval \<Rightarrow> string option" where
  "as_str v = (case v of PStr s \<Rightarrow> Some s | _ \<Rightarrow> None)"

definition as_str_list :: "pyval list \<Rightarrow> string list option" where
  "as_str_list vs = those (map as_str vs)"

definition as_stat :: "pyval \<times> pyval \<Rightarrow> (string \<times> int) option" where
  "as_stat kv =
     Option.bind (as_str (fst kv)) (\<lambda>k. Option.bind (as_int (snd kv)) (\<lambda>b. Some (k, b)))"

definition as_sprite :: "string \<times> pyval \<Rightarrow> (string \<times> string) option" where
  "as_sprite kv = Option.bind (as_str (snd kv)) (\<lambda>u. Some (fst kv, u))"

definition dict_of_pairs :: "('k \<times> 'a) list \<Rightarrow> ('k \<times> 'a) list" where
  "dict_of_pairs kvs = foldl (\<lambda>acc kv. AList.update (fst kv) (snd kv) acc) [] kvs"

definition validate_pokemon ::
  "pyval \<Rightarrow> pyval \<Rightarrow> pyval list \<Rightarrow> rat \<Rightarrow> rat \<Rightarrow> pyval \<Rightarrow> pyval list \<Rightarrow> (pyval \<times> pyval) list
     \<Rightarrow> pyval list \<Rightarrow> (string \<times> pyval) list \<Rightarrow> pyexc + pyval pokemon_data" where
  "validate_pokemon a_id a_name a_types a_height a_weight a_exp a_abilities a_stats a_moves a_sprites =
     (case
        Option.bind (as_int a_id) (\<lambda>i.
        Option.bind (as_str a_name) (\<lambda>n.
        Option.bind (as_str_list a_types) (\<lambda>ts.
        Option.bind (as_int a_exp) (\<lambda>x.
        Option.bind (as_str_list a_abilities) (\<lambda>ab.
        Option.bind (those (map as_stat a_stats)) (\<lambda>st.
        Option.bind (as_str_list a_moves) (\<lambda>mv.
        Option.bind (those (map as_sprite a_sprites)) (\<lambda>sp.
          Some (PokemonData i n ts a_height a_weight x ab (dict_of_pairs st) mv sp
                  None None None)))))))))
      of None \<Rightarrow> Inl ValidationError | Some p \<Rightarrow> Inr p)"

text \<open>
  The constructor call of \<^verbatim>\<open>get_pokemon_by_name\<close>: the arguments are evaluated in the
  order written, then validated.
\<close>

definition pokemon_of_json :: "pyval \<Rightarrow> pyexc + pyval pokemon_data" where
  "pokemon_of_json data =
     and_then (py_getitem data ''id'') (\<lambda>a_id.
     and_then (py_getitem data ''name'') (\<lambda>a_name.
     and_then (and_then (py_getitem data ''types'') (names_of ''type'')) (\<lambda>a_types.
     and_then (and_then (py_getitem data ''height'') py_truediv10) (\<lambda>a_height.
     and_then (and_then (py_getitem data ''weight'') py_truediv10) (\<lambda>a_weight.
     and_then (py_getitem data ''base_experience'') (\<lambda>a_exp.
     and_then (and_then (py_getitem data ''abilities'') (names_of ''ability'')) (\<lambda>a_abilities.
     and_then (and_then (py_getitem data ''stats'') stats_of) (\<lambda>a_stats.
     and_then (and_then (and_then (py_getitem data ''moves'') (py_slice 20)) (names_of ''move''))
       (\<lambda>a_moves.
     and_then (sprites_of data) (\<lambda>a_sprites.
       validate_pokemon a_id a_name a_types a_height a_weight a_exp a_abilities a_stats
         a_moves a_sprites))))))))))"

definition get_pokemon_by_name ::
  "env \<Rightarrow> world \<Rightarrow> pyval \<Rightarrow> (pyexc + pyval pokemon_data option) \<times> world" where
  "get_pokemon_by_name ev w nm =
     (case lower_of nm of
        Inl e \<Rightarrow> (Inl e, w)
      | Inr l \<Rightarrow>
          (case make_request ev w (''pokemon/'' @ l) of
             (data, w1) \<Rightarrow>
               if \<not> py_truthy data then (Inr None, w1)
               else (and_then (pokemon_of_json data) (\<lambda>p. Inr (Some p)), w1)))"

definition get_pokemon_by_id ::
  "env \<Rightarrow> world \<Rightarrow> pyval \<Rightarrow> (pyexc + pyval pokemon_data option) \<times> world" where
  "get_pokemon_by_id ev w pokemon_id = get_pokemon_by_name ev w (PStr (py_str ev pokemon_id))"

text \<open>
  The loop shared by \<^verbatim>\<open>get_pokemon_by_type\<close> and \<^verbatim>\<open>search_pokemon\<close>: for each entry
  in turn, \<open>sel\<close> reads the name to look up (or skips the entry), the name is looked up,
  and a found record is appended. An exception ends the loop where it is raised.
\<close>

fun lookup_each ::
  "env \<Rightarrow> (pyval \<Rightarrow> pyexc + pyval option) \<Rightarrow> pyval list \<Rightarrow> world
     \<Rightarrow> (pyexc + pyval pokemon_data list) \<times> world" where
  "lookup_each ev sel [] w = (Inr [], w)"
| "lookup_each ev sel (x # xs) w =
     (case sel x of
        Inl e \<Rightarrow> (Inl e, w)
      | Inr None \<Rightarrow> lookup_each ev sel xs w
      | Inr (Some nm) \<Rightarrow>
          (case get_pokemon_by_name ev w nm of
             (Inl e, w1) \<Rightarrow> (Inl e, w1)
           | (Inr found, w1) \<Rightarrow>
               (case lookup_each ev sel xs w1 of
                  (Inl e, w2) \<Rightarrow> (Inl e, w2)
                | (Inr ps, w2) \<Rightarrow>
                    (Inr (case found of None \<Rightarrow> ps | Some p \<Rightarrow> p # ps), w2))))"

definition get_pokemon_by_type ::
  "env \<Rightarrow> world \<Rightarrow> pyval \<Rightarrow> (pyexc + pyval pokemon_data list) \<times> world" where
  "get_pokemon_by_type ev w pokemon_type =
     (case lower_of pokemon_type of
        Inl e \<Rightarrow> (Inl e, w)
      | Inr l \<Rightarrow>
          (case make_request ev w (''type/'' @ l) of
             (data, w1) \<Rightarrow>
               if \<not> py_truthy data then (Inr [], w1)
               else (case and_then (and_then (py_getitem data ''pokemon'') (py_slice 50)) py_iter of
                       Inl e \<Rightarrow> (Inl e, w1)
                     | Inr infos \<Rightarrow>
                         lookup_each ev
                           (\<lambda>info. and_then (and_then (py_getitem info ''pokemon'')
                                               (\<lambda>p. py_getitem p ''name''))
                                      (\<lambda>n. Inr (Some n)))
                           infos w1)))"

definition search_pokemon ::
  "env \<Rightarrow> world \<Rightarrow> pyval \<Rightarrow> (pyexc + pyval pokemon_data list) \<times> world" where
  "search_pokemon ev w q =
     (case make_request ev w ''pokemon?limit=1000'' of
        (data, w1) \<Rightarrow>
          if \<not> py_truthy data then (Inr [], w1)
          else (case lower_of q of
                  Inl e \<Rightarrow> (Inl e, w1)
                | Inr query_lower \<Rightarrow>
                    (case and_then (py_getitem data ''results'') py_iter of
                       Inl e \<Rightarrow> (Inl e, w1)
                     | Inr infos \<Rightarrow>
                         lookup_each ev
                           (\<lambda>info. and_then (py_getitem info ''name'')
                                      (\<lambda>n. and_then (lower_of n)
                                      (\<lambda>l. Inr (if sublist query_lower l then Some n else None))))
                           infos w1)))"

lemma and_then_cong [fundef_cong]:
  "r = r' \<Longrightarrow> (\<And>x. r' = Inr x \<Longrightarrow> f x = f' x) \<Longrightarrow> and_then r f = and_then r' f'"
  by (cases r') (simp_all add: and_then_def)

lemma map_exc_cong [fundef_cong]:
  "xs = ys \<Longrightarrow> (\<And>x. x \<in> set ys \<Longrightarrow> f x = g x) \<Longrightarrow> map_exc f xs = map_exc g ys"
  by (induction ys arbitrary: xs) (auto intro: and_then_cong)

lemma size_map_of: "map_of kvs k = Some v \<Longrightarrow> size v < size (PDict kvs)"
  by (induction kvs) (auto split: if_splits)

lemma size_list_member: "x \<in> set xs \<Longrightarrow> size (x::pyval) \<le> size_list size xs"
  by (induction xs) auto

lemma size_evolves_to:
  "dict_get link k (PList []) = Inr evs \<Longrightarrow> py_iter evs = Inr children \<Longrightarrow> x \<in> set children
     \<Longrightarrow> size x < size link"
proof (cases link)
  case (PDict kvs)
  assume g: "dict_get link k (PList []) = Inr evs" and i: "py_iter evs = Inr children"
    and x: "x \<in> set children"
  show ?thesis
  proof (cases "map_of kvs k")
    case None
    with g PDict have "evs = PList []" by simp
    with i x show ?thesis by simp
  next
    case (Some v)
    with g PDict have ev: "evs = v" by simp
    have lt: "size evs < size link" using Some ev PDict size_map_of by blast
    have "size x \<le> size evs" using i x
      by (cases evs) (auto dest: size_list_member)
    with lt show ?thesis by simp
  qed
qed simp_all

text \<open>
  The nested \<^verbatim>\<open>extract_evolutions\<close> of \<^verbatim>\<open>get_evolution_chain\<close>: the species name of the
  link, then the chains of its \<^verbatim>\<open>evolves_to\<close> entries, depth first.
\<close>

function extract_evolutions :: "pyval \<Rightarrow> pyexc + pyval list" where
  "extract_evolutions chain_link =
     and_then (and_then (py_getitem chain_link ''species'') (\<lambda>sp. py_getitem sp ''name'')) (\<lambda>nm.
     and_then (dict_get chain_link ''evolves_to'' (PList [])) (\<lambda>evs.
     and_then (py_iter evs) (\<lambda>children.
     and_then (map_exc extract_evolutions children) (\<lambda>rs. Inr (nm # concat rs)))))"
  by pat_completeness auto
termination
  apply (relation "measure size")
   apply simp
  apply (simp add: size_evolves_to)
  done

declare extract_evolutions.simps [simp del]

fun split_of :: "pyval \<Rightarrow> pyexc + string list" where
  "split_of (PStr s) = Inr (py_split CHR ''/'' s)"
| "split_of v = Inl AttributeError"

definition get_evolution_chain ::
  "env \<Rightarrow> world \<Rightarrow> pyval \<Rightarrow> (pyexc + pyval list) \<times> world" where
  "get_evolution_chain ev w pokemon_name =
     (case lower_of pokemon_name of
        Inl e \<Rightarrow> (Inl e, w)
      | Inr l \<Rightarrow>
          (case make_request ev w (''pokemon-species/'' @ l) of
             (species_data, w1) \<Rightarrow>
               if \<not> py_truthy species_data then (Inr [], w1)
               else (case dict_get species_data ''evolution_chain'' PNone of
                       Inl e \<Rightarrow> (Inl e, w1)
                     | Inr ec \<Rightarrow>
                         if \<not> py_truthy ec then (Inr [], w1)
                         else (case and_then (and_then (py_getitem species_data ''evolution_chain'')
                                                (\<lambda>c. py_getitem c ''url''))
                                      (\<lambda>u. and_then (split_of u) second_last) of
                                 Inl e \<Rightarrow> (Inl e, w1)
                               | Inr chain_id \<Rightarrow>
                                   (case make_request ev w1 (''evolution-chain/'' @ chain_id) of
                                      (chain_data, w2) \<Rightarrow>
                                        if \<not> py_truthy chain_data then (Inr [], w2)
                                        else (and_then (py_getitem chain_data ''chain'')
                                                extract_evolutions, w2))))))"

text \<open>\<^verbatim>\<open>.replace("\n", " ").replace("\f", " ")\<close> on the flavor text.\<close>

fun flatten_text :: "pyval \<Rightarrow> pyexc + string" where
  "flatten_text (PStr s) =
     Inr (map (\<lambda>c. if c = CHR 0x0A \<or> c = CHR 0x0C then CHR '' '' else c) s)"
| "flatten_text v = Inl AttributeError"

fun first_english :: "pyval list \<Rightarrow> pyexc + string option" where
  "first_english [] = Inr None"
| "first_english (entry # es) =
     and_then (and_then (py_getitem entry ''language'') (\<lambda>l. py_getitem l ''name'')) (\<lambda>n.
       if n = PStr ''en''
       then and_then (and_then (py_getitem entry ''flavor_text'') flatten_text) (\<lambda>t. Inr (Some t))
       else first_english es)"

definition get_pokemon_description ::
  "env \<Rightarrow> world \<Rightarrow> pyval \<Rightarrow> (pyexc + string option) \<times> world" where
  "get_pokemon_description ev w pokemon_name =
     (case lower_of pokemon_name of
        Inl e \<Rightarrow> (Inl e, w)
      | Inr l \<Rightarrow>
          (case make_request ev w (''pokemon-species/'' @ l) of
             (species_data, w1) \<Rightarrow>
               if \<not> py_truthy species_data then (Inr None, w1)
               else (case dict_get species_data ''flavor_text_entries'' PNone of
                       Inl e \<Rightarrow> (Inl e, w1)
                     | Inr fte \<Rightarrow>
                         if \<not> py_truthy fte then (Inr None, w1)
                         else (and_then (and_then (py_getitem species_data ''flavor_text_entries'')
                                           py_iter) first_english, w1))))"

definition get_all_types :: "env \<Rightarrow> world \<Rightarrow> (pyexc + pyval list) \<times> world" where
  "get_all_types ev w =
     (case make_request ev w ''type'' of
        (data, w1) \<Rightarrow>
          if \<not> py_truthy data then (Inr [], w1)
          else (and_then (and_then (py_getitem data ''results'') py_iter)
                  (map_exc (\<lambda>t. py_getitem t ''name'')), w1))"

definition get_generation_info :: "env \<Rightarrow> world \<Rightarrow> pyval \<Rightarrow> (pyexc + pyval) \<times> world" where
  "get_generation_info ev w generation =
     (case lower_of generation of
        Inl e \<Rightarrow> (Inl e, w)
      | Inr l \<Rightarrow> (case make_request ev w (''generation/'' @ l) of (data, w1) \<Rightarrow> (Inr data, w1)))"

text \<open>
  The two module-level functions go through \<^verbatim>\<open>requests\<close>: an exception of the request
  propagates, \<^verbatim>\<open>raise_for_status()\<close> raises on a 4xx or 5xx status, and \<^verbatim>\<open>response.json()\<close>
  may raise.
\<close>

definition raise_for_status :: "http_result \<Rightarrow> pyexc + pyval" where
  "raise_for_status r =
     (case r of
        HttpRaise e \<Rightarrow> Inl e
      | HttpResponse status body \<Rightarrow>
          if 400 \<le> status \<and> status < 600 then Inl (HTTPError status) else body)"

definition fetch_all_pokemon :: "env \<Rightarrow> pyval \<Rightarrow> pyval \<Rightarrow> pyexc + pyval" where
  "fetch_all_pokemon ev limit offset =
     raise_for_status
       (requests_get ev (POKEAPI_BASE_URL @ ''/pokemon'') [(''limit'', limit), (''offset'', offset)])"

definition fetch_pokemon_ability :: "env \<Rightarrow> pyval \<Rightarrow> pyexc + pyval" where
  "fetch_pokemon_ability ev ability_name =
     (case lower_of ability_name of
        Inl e \<Rightarrow> Inl e
      | Inr l \<Rightarrow> raise_for_status (requests_get ev (POKEAPI_BASE_URL @ ''/ability/'' @ l) []))"

section \<open>The data model (models.py)\<close>

text \<open>
  The creation time stamps (\<^verbatim>\<open>timestamp\<close>, \<^verbatim>\<open>generated_at\<close>) are left out. Two fields of
  \<^verbatim>\<open>ResearchReport\<close> share their names with fields of the other classes and carry the
  prefix \<open>report_\<close>. The context's \<^verbatim>\<open>original_query\<close> and \<^verbatim>\<open>clarified_goals\<close> are assigned
  without validation, so they hold arbitrary values.
\<close>

datatype ResearchStepType = CLARIFICATION | POKEAPI_QUERY | WEB_SEARCH | ANALYSIS | SYNTHESIS

record research_step =
  step_type :: ResearchStepType
  description :: string
  input_data :: "(string \<times> pyval) list option"
  output_data :: "(string \<times> pyval) list option"
  sources :: "string list"
  success :: bool
  error_message :: "string option"

record research_context =
  original_query :: pyval
  clarified_goals :: pyval
  research_steps :: "research_step list"
  collected_data :: "(string \<times> pyval) list"
  current_focus :: "string option"
  user_feedback :: "string option"

record research_report =
  query :: string
  executive_summary :: string
  detailed_findings :: "(string \<times> pyval) list"
  recommendations :: "string list"
  report_sources :: "string list"
  report_research_steps :: "research_step list"
  confidence_score :: rat
  limitations :: "string list"

text \<open>\<^verbatim>\<open>model_dump()\<close> of a \<^verbatim>\<open>PokemonData\<close>.\<close>

definition model_dump :: "pyval pokemon_data \<Rightarrow> pyval" where
  "model_dump p = PDict
     [(''id'', PInt (pd_id p)),
      (''name'', PStr (pd_name p)),
      (''types'', PList (map PStr (pd_types p))),
      (''height'', PFloat (pd_height p)),
      (''weight'', PFloat (pd_weight p)),
      (''base_experience'', PInt (pd_base_experience p)),
      (''abilities'', PList (map PStr (pd_abilities p))),
      (''stats'', PDict (map (\<lambda>kv. (fst kv, PInt (snd kv))) (pd_stats p))),
      (''moves'', PList (map PStr (pd_moves p))),
      (''sprites'', PDict (map (\<lambda>kv. (fst kv, PStr (snd kv))) (pd_sprites p))),
      (''description'', (case pd_description p of None \<Rightarrow> PNone | Some d \<Rightarrow> PStr d)),
      (''evolution_chain'', (case pd_evolution_chain p of None \<Rightarrow> PNone | Some c \<Rightarrow> PList c)),
      (''location_areas'',
         (case pd_location_areas p of None \<Rightarrow> PNone | Some a \<Rightarrow> PList (map PStr a)))]"

section \<open>The orchestrator (llm\_agent.py)\<close>

text \<open>
  The state of a run: the research context and the effects outside it. Every operation
  returns the state it leaves and the exception that escapes it, if any: an exception
  keeps the mutations made before it.
\<close>

record agent_state =
  ctx :: research_context
  wld :: world

definition append_step :: "research_step \<Rightarrow> agent_state \<Rightarrow> agent_state" where
  "append_step st s = s\<lparr>ctx := (ctx s)\<lparr>research_steps := research_steps (ctx s) @ [st]\<rparr>\<rparr>"

definition set_data :: "string \<Rightarrow> pyval \<Rightarrow> agent_state \<Rightarrow> agent_state" where
  "set_data k v s =
     s\<lparr>ctx := (ctx s)\<lparr>collected_data := AList.update k v (collected_data (ctx s))\<rparr>\<rparr>"

definition get_data :: "agent_state \<Rightarrow> string \<Rightarrow> pyval \<Rightarrow> pyval" where
  "get_data s k d = (case map_of (collected_data (ctx s)) k of None \<Rightarrow> d | Some v \<Rightarrow> v)"

definition set_world :: "world \<Rightarrow> agent_state \<Rightarrow> agent_state" where
  "set_world w s = s\<lparr>wld := w\<rparr>"

definition log_in :: "log_level \<Rightarrow> string \<Rightarrow> agent_state \<Rightarrow> agent_state" where
  "log_in lvl msg s = s\<lparr>wld := log_msg lvl msg (wld s)\<rparr>"

text \<open>One call of \<^verbatim>\<open>self.client.chat.completions.create\<close>, recorded in the trace.\<close>

definition call_llm :: "env \<Rightarrow> phase \<Rightarrow> agent_state \<Rightarrow> (pyexc + completion) \<times> agent_state" where
  "call_llm ev ph s =
     (llm ev (length (llm_calls (wld s))),
      s\<lparr>wld := (wld s)\<lparr>llm_calls := llm_calls (wld s) @ [ph]\<rparr>\<rparr>)"

definition new_step :: "ResearchStepType \<Rightarrow> string \<Rightarrow> research_step" where
  "new_step t d =
     \<lparr>step_type = t, description = d, input_data = None, output_data = None, sources = [],
      success = True, error_message = None\<rparr>"

definition failed_step :: "env \<Rightarrow> ResearchStepType \<Rightarrow> string \<Rightarrow> pyexc \<Rightarrow> research_step" where
  "failed_step ev t d e = (new_step t d)\<lparr>success := False, error_message := Some (exc_str ev e)\<rparr>"

subsection \<open>Clarify\<close>

text \<open>The body of the \<^verbatim>\<open>try\<close> of \<^verbatim>\<open>_clarify_goals\<close>, once \<^verbatim>\<open>response\<close> is bound.\<close>

definition clarify_body :: "env \<Rightarrow> completion \<Rightarrow> agent_state \<Rightarrow> agent_state \<times> pyexc option" where
  "clarify_body ev response s =
     (case content response of
        None \<Rightarrow> (s, Some (RuntimeError ''LLM returned no clarification goal content''))
      | Some c \<Rightarrow>
          (case json_loads ev (py_strip c) of
             Inl e \<Rightarrow> (s, Some e)
           | Inr clarification_data \<Rightarrow>
               (case clarification_data of
                  PDict kvs \<Rightarrow>
                    (let dget = (\<lambda>k d. case map_of kvs k of None \<Rightarrow> d | Some v \<Rightarrow> v);
                         s1 = s\<lparr>ctx := (ctx s)\<lparr>clarified_goals := dget ''goals'' (PList [])\<rparr>\<rparr>;
                         s2 = set_data ''pokemon_to_research'' (dget ''pokemon_to_research'' (PList [])) s1;
                         s3 = set_data ''research_focus'' (dget ''research_focus'' (PStr [])) s2;
                         s4 = set_data ''constraints'' (dget ''constraints'' (PList [])) s3;
                         s5 = set_data ''subagent_instructions'' (dget ''subagent_instructions'' (PList [])) s4;
                         s6 = set_data ''num_subagents'' (dget ''num_subagents'' (PInt 1)) s5
                     in (append_step
                           ((new_step CLARIFICATION
                               ''Clarified research goals and identified key areas to investigate'')
                              \<lparr>output_data := Some kvs\<rparr>) s6, None))
                | _ \<Rightarrow> (s, Some AttributeError))))"

text \<open>
  \<^verbatim>\<open>_clarify_goals\<close>. When \<^verbatim>\<open>create\<close> itself raises, the local \<^verbatim>\<open>response\<close> was never
  assigned: the handler's third \<^verbatim>\<open>print\<close> reads it and raises UnboundLocalError, before
  the error is logged or a step recorded, and that exception leaves the function.
\<close>

definition clarify_goals :: "env \<Rightarrow> agent_state \<Rightarrow> agent_state \<times> pyexc option" where
  "clarify_goals ev s =
     (case call_llm ev Clarify s of
        (Inl e, s1) \<Rightarrow> (s1, Some (UnboundLocalError ''response''))
      | (Inr response, s1) \<Rightarrow>
          (case clarify_body ev response s1 of
             (s2, None) \<Rightarrow> (s2, None)
           | (s2, Some e) \<Rightarrow>
               (append_step (failed_step ev CLARIFICATION ''Failed to clarify goals'' e)
                  (log_in ERROR (''Error in goal clarification: '' @ exc_str ev e) s2), None)))"

subsection \<open>The research helpers the dispatcher can call\<close>

definition research_pokemon_api_try ::
  "env \<Rightarrow> pyval \<Rightarrow> agent_state \<Rightarrow> agent_state \<times> pyexc option" where
  "research_pokemon_api_try ev pokemon_name s =
     (case get_pokemon_by_name ev (wld s) pokemon_name of
        (Inl e, w1) \<Rightarrow> (set_world w1 s, Some e)
      | (Inr None, w1) \<Rightarrow> (set_world w1 s, None)
      | (Inr (Some p), w1) \<Rightarrow>
          (case get_pokemon_description ev w1 pokemon_name of
             (Inl e, w2) \<Rightarrow> (set_world w2 s, Some e)
           | (Inr descr, w2) \<Rightarrow>
               (case get_evolution_chain ev w2 pokemon_name of
                  (Inl e, w3) \<Rightarrow> (set_world w3 s, Some e)
                | (Inr chain, w3) \<Rightarrow>
                    (let p1 = (case descr of
                                 None \<Rightarrow> p
                               | Some d \<Rightarrow> if d = [] then p
                                           else (case p of PokemonData a b c d1 e f g h i j k l m \<Rightarrow>
                                                   PokemonData a b c d1 e f g h i j (Some d) l m));
                         p2 = (if chain = [] then p1
                               else (case p1 of PokemonData a b c d1 e f g h i j k l m \<Rightarrow>
                                       PokemonData a b c d1 e f g h i j k (Some chain) m));
                         nm = py_str ev pokemon_name
                     in (append_step
                           ((new_step POKEAPI_QUERY
                               (''Retrieved comprehensive data for '' @ nm @ '' from PokeAPI''))
                              \<lparr>output_data := Some [(''pokemon_data'', model_dump p2)],
                               sources := [''https://pokeapi.co/api/v2/pokemon/'' @ nm]\<rparr>)
                           (set_data (''pokemon_'' @ nm) (model_dump p2) (set_world w3 s)),
                         None)))))"

definition research_pokemon_api :: "env \<Rightarrow> pyval \<Rightarrow> agent_state \<Rightarrow> agent_state" where
  "research_pokemon_api ev pokemon_name s =
     (case research_pokemon_api_try ev pokemon_name s of
        (s1, None) \<Rightarrow> s1
      | (s1, Some e) \<Rightarrow>
          append_step
            (failed_step ev POKEAPI_QUERY
               (''Failed to retrieve data for '' @ py_str ev pokemon_name) e)
            (log_in ERROR
               (''Error researching '' @ py_str ev pokemon_name @ '' via API: '' @ exc_str ev e) s1))"

text \<open>
  \<^verbatim>\<open>_research_pokemon_web\<close>: the web data is stored before the step is built, and building
  the step reads \<^verbatim>\<open>result["url"]\<close> of every result (validated as a list of strings).
\<close>

definition research_pokemon_web_try ::
  "env \<Rightarrow> pyval \<Rightarrow> agent_state \<Rightarrow> agent_state \<times> pyexc option" where
  "research_pokemon_web_try ev pokemon_name s =
     (let web_results = search_pokemon_info ev pokemon_name;
          web_data = [(''web_results'', PList web_results),
                      (''training_tips'', search_training_tips ev pokemon_name),
                      (''competitive_info'', search_competitive_info ev pokemon_name),
                      (''location_info'', search_location_info ev pokemon_name)];
          nm = py_str ev pokemon_name;
          s1 = set_data (''web_data_'' @ nm) (PDict web_data) s
      in case map_exc (\<lambda>r. py_getitem r ''url'') web_results of
           Inl e \<Rightarrow> (s1, Some e)
         | Inr urls \<Rightarrow>
             (case as_str_list urls of
                None \<Rightarrow> (s1, Some ValidationError)
              | Some us \<Rightarrow>
                  (append_step
                     ((new_step WEB_SEARCH
                         (''Gathered additional information about '' @ nm @ '' from web sources''))
                        \<lparr>output_data := Some web_data, sources := us\<rparr>) s1, None)))"

definition research_pokemon_web :: "env \<Rightarrow> pyval \<Rightarrow> agent_state \<Rightarrow> agent_state" where
  "research_pokemon_web ev pokemon_name s =
     (case research_pokemon_web_try ev pokemon_name s of
        (s1, None) \<Rightarrow> s1
      | (s1, Some e) \<Rightarrow>
          append_step
            (failed_step ev WEB_SEARCH
               (''Failed to gather web data for '' @ py_str ev pokemon_name) e)
            (log_in ERROR
               (''Error researching '' @ py_str ev pokemon_name @ '' via web: '' @ exc_str ev e) s1))"

text \<open>\<^verbatim>\<open>_research_training_info\<close>: a failure is logged only, no step is recorded.\<close>

fun training_loop ::
  "env \<Rightarrow> string list \<Rightarrow> world \<Rightarrow> (pyexc + (string \<times> pyval) list) \<times> world" where
  "training_loop ev [] w = (Inr [], w)"
| "training_loop ev (n # ns) w =
     (case get_pokemon_by_name ev w (PStr n) of
        (Inl e, w1) \<Rightarrow> (Inl e, w1)
      | (Inr None, w1) \<Rightarrow> training_loop ev ns w1
      | (Inr (Some p), w1) \<Rightarrow>
          (case get_evolution_chain ev w1 (PStr n) of
             (Inl e, w2) \<Rightarrow> (Inl e, w2)
           | (Inr chain, w2) \<Rightarrow>
               (case training_loop ev ns w2 of
                  (Inl e, w3) \<Rightarrow> (Inl e, w3)
                | (Inr rest, w3) \<Rightarrow>
                    (Inr ((n, PDict [(''base_exp'', PInt (pd_base_experience p)),
                                     (''evolution_chain'', PList chain),
                                     (''stats'', PDict (map (\<lambda>kv. (fst kv, PInt (snd kv)))
                                                          (pd_stats p)))]) # rest), w3))))"

definition early_pokemon :: "string list" where
  "early_pokemon = [''pikachu'', ''charmander'', ''bulbasaur'', ''squirtle'', ''pidgey'', ''rattata'']"

definition research_training_info :: "env \<Rightarrow> agent_state \<Rightarrow> agent_state" where
  "research_training_info ev s =
     (case training_loop ev early_pokemon (wld s) of
        (Inl e, w1) \<Rightarrow>
          log_in ERROR (''Error researching training info: '' @ exc_str ev e) (set_world w1 s)
      | (Inr training_data, w1) \<Rightarrow>
          append_step
            ((new_step ANALYSIS
                ''Researched and analysed training information for early-game Pokemon'')
               \<lparr>output_data := Some training_data\<rparr>)
            (set_data ''training_research'' (PDict training_data) (set_world w1 s)))"

text \<open>\<^verbatim>\<open>_research_unique_pokemon\<close>: likewise; the query is lower-cased at every criterion.\<close>

fun unique_loop ::
  "env \<Rightarrow> pyval \<Rightarrow> string list \<Rightarrow> world \<Rightarrow> (pyexc + (string \<times> pyval) list) \<times> world" where
  "unique_loop ev q [] w = (Inr [], w)"
| "unique_loop ev q (c # cs) w =
     (case lower_of q of
        Inl e \<Rightarrow> (Inl e, w)
      | Inr ql \<Rightarrow>
          if sublist c ql
          then (case search_pokemon ev w (PStr c) of
                  (Inl e, w1) \<Rightarrow> (Inl e, w1)
                | (Inr ps, w1) \<Rightarrow>
                    (case unique_loop ev q cs w1 of
                       (Inl e, w2) \<Rightarrow> (Inl e, w2)
                     | (Inr rest, w2) \<Rightarrow>
                         (Inr ((c, PList (map model_dump (take 10 ps))) # rest), w2)))
          else unique_loop ev q cs w)"

definition unique_criteria :: "string list" where
  "unique_criteria = [''legendary'', ''mythical'', ''regional'', ''fossil'', ''water'', ''ocean'']"

definition research_unique_pokemon :: "env \<Rightarrow> agent_state \<Rightarrow> agent_state" where
  "research_unique_pokemon ev s =
     (case unique_loop ev (original_query (ctx s)) unique_criteria (wld s) of
        (Inl e, w1) \<Rightarrow>
          log_in ERROR (''Error researching unique Pokemon: '' @ exc_str ev e) (set_world w1 s)
      | (Inr unique_pokemon, w1) \<Rightarrow>
          append_step
            ((new_step ANALYSIS
                ''Researched and analysed unique Pokemon matching the query criteria'')
               \<lparr>output_data := Some unique_pokemon\<rparr>)
            (set_data ''unique_pokemon'' (PDict unique_pokemon) (set_world w1 s)))"

subsection \<open>The Function Dispatcher\<close>

text \<open>
  One branch of \<^verbatim>\<open>_execute_function_calls\<close> per tool. Each reads its argument with
  \<^verbatim>\<open>function_args.get\<close>, does nothing when it is missing or falsy, calls the adapter and
  stores the result under a key built from the tool and the argument.
\<close>

definition with_arg ::
  "pyval \<Rightarrow> string \<Rightarrow> agent_state \<Rightarrow> (pyval \<Rightarrow> agent_state \<times> pyexc option)
     \<Rightarrow> agent_state \<times> pyexc option" where
  "with_arg function_args k s body =
     (case dict_get function_args k PNone of
        Inl e \<Rightarrow> (s, Some e)
      | Inr a \<Rightarrow> if py_truthy a then body a else (s, None))"

definition tool_get_pokemon_by_name :: "env \<Rightarrow> pyval \<Rightarrow> agent_state \<Rightarrow> agent_state \<times> pyexc option" where
  "tool_get_pokemon_by_name ev function_args s =
     with_arg function_args ''name'' s (\<lambda>pokemon_name.
       case get_pokemon_by_name ev (wld s) pokemon_name of
         (Inl e, w1) \<Rightarrow> (set_world w1 s, Some e)
       | (Inr None, w1) \<Rightarrow> (set_world w1 s, Some AttributeError)
       | (Inr (Some p), w1) \<Rightarrow>
           (set_data (''pokemon_'' @ py_str ev pokemon_name) (model_dump p) (set_world w1 s), None))"

definition tool_get_pokemon_by_id :: "env \<Rightarrow> pyval \<Rightarrow> agent_state \<Rightarrow> agent_state \<times> pyexc option" where
  "tool_get_pokemon_by_id ev function_args s =
     with_arg function_args ''pokemon_id'' s (\<lambda>pokemon_id.
       case get_pokemon_by_id ev (wld s) pokemon_id of
         (Inl e, w1) \<Rightarrow> (set_world w1 s, Some e)
       | (Inr None, w1) \<Rightarrow> (set_world w1 s, Some AttributeError)
       | (Inr (Some p), w1) \<Rightarrow>
           (set_data (''pokemon_id_'' @ py_str ev pokemon_id) (model_dump p) (set_world w1 s), None))"

definition tool_get_pokemon_by_type :: "env \<Rightarrow> pyval \<Rightarrow> agent_state \<Rightarrow> agent_state \<times> pyexc option" where
  "tool_get_pokemon_by_type ev function_args s =
     with_arg function_args ''pokemon_type'' s (\<lambda>pokemon_type.
       case get_pokemon_by_type ev (wld s) pokemon_type of
         (Inl e, w1) \<Rightarrow> (set_world w1 s, Some e)
       | (Inr ps, w1) \<Rightarrow>
           (set_data (''pokemon_type_'' @ py_str ev pokemon_type) (PList (map PModel ps))
              (set_world w1 s), None))"

definition tool_search_pokemon :: "env \<Rightarrow> pyval \<Rightarrow> agent_state \<Rightarrow> agent_state \<times> pyexc option" where
  "tool_search_pokemon ev function_args s =
     with_arg function_args ''query'' s (\<lambda>q.
       case search_pokemon ev (wld s) q of
         (Inl e, w1) \<Rightarrow> (set_world w1 s, Some e)
       | (Inr ps, w1) \<Rightarrow>
           (set_data (''search_'' @ py_str ev q) (PList (map PModel ps)) (set_world w1 s), None))"

definition tool_get_evolution_chain :: "env \<Rightarrow> pyval \<Rightarrow> agent_state \<Rightarrow> agent_state \<times> pyexc option" where
  "tool_get_evolution_chain ev function_args s =
     with_arg function_args ''pokemon_name'' s (\<lambda>pokemon_name.
       case get_evolution_chain ev (wld s) pokemon_name of
         (Inl e, w1) \<Rightarrow> (set_world w1 s, Some e)
       | (Inr chain, w1) \<Rightarrow>
           (set_data (''evolution_chain_'' @ py_str ev pokemon_name) (PList chain)
              (set_world w1 s), None))"

definition tool_get_pokemon_description :: "env \<Rightarrow> pyval \<Rightarrow> agent_state \<Rightarrow> agent_state \<times> pyexc option" where
  "tool_get_pokemon_description ev function_args s =
     with_arg function_args ''pokemon_name'' s (\<lambda>pokemon_name.
       case get_pokemon_description ev (wld s) pokemon_name of
         (Inl e, w1) \<Rightarrow> (set_world w1 s, Some e)
       | (Inr descr, w1) \<Rightarrow>
           (set_data (''description_'' @ py_str ev pokemon_name)
              (case descr of None \<Rightarrow> PNone | Some d \<Rightarrow> PStr d) (set_world w1 s), None))"

definition tool_get_all_types :: "env \<Rightarrow> agent_state \<Rightarrow> agent_state \<times> pyexc option" where
  "tool_get_all_types ev s =
     (case get_all_types ev (wld s) of
        (Inl e, w1) \<Rightarrow> (set_world w1 s, Some e)
      | (Inr ts, w1) \<Rightarrow> (set_data ''all_types'' (PList ts) (set_world w1 s), None))"

definition tool_get_generation_info :: "env \<Rightarrow> pyval \<Rightarrow> agent_state \<Rightarrow> agent_state \<times> pyexc option" where
  "tool_get_generation_info ev function_args s =
     with_arg function_args ''generation'' s (\<lambda>generation.
       case get_generation_info ev (wld s) generation of
         (Inl e, w1) \<Rightarrow> (set_world w1 s, Some e)
       | (Inr gen_info, w1) \<Rightarrow>
           (set_data (''generation_'' @ py_str ev generation) gen_info (set_world w1 s), None))"

text \<open>\<^verbatim>\<open>[p for p in pokemon_list]\<close> iterates whatever \<^verbatim>\<open>response.json()\<close> returned.\<close>

definition tool_fetch_all_pokemon :: "env \<Rightarrow> pyval \<Rightarrow> agent_state \<Rightarrow> agent_state \<times> pyexc option" where
  "tool_fetch_all_pokemon ev function_args s =
     (case and_then (dict_get function_args ''limit'' (PInt 100)) (\<lambda>limit.
           and_then (dict_get function_args ''offset'' (PInt 0)) (\<lambda>offset.
           and_then (fetch_all_pokemon ev limit offset) (\<lambda>pokemon_list.
           and_then (py_iter pokemon_list) (\<lambda>ps.
             Inr (''all_pokemon_'' @ py_str ev offset @ ''_'' @ py_str ev limit, PList ps))))) of
        Inl e \<Rightarrow> (s, Some e)
      | Inr kv \<Rightarrow> (set_data (fst kv) (snd kv) s, None))"

definition tool_fetch_pokemon_ability :: "env \<Rightarrow> pyval \<Rightarrow> agent_state \<Rightarrow> agent_state \<times> pyexc option" where
  "tool_fetch_pokemon_ability ev function_args s =
     with_arg function_args ''ability_name'' s (\<lambda>ability_name.
       case fetch_pokemon_ability ev ability_name of
         Inl e \<Rightarrow> (s, Some e)
       | Inr ability_data \<Rightarrow> (set_data (''ability_'' @ py_str ev ability_name) ability_data s, None))"

text \<open>The \<^verbatim>\<open>if\<close>/\<^verbatim>\<open>elif\<close> chain on the tool name, in the source's order.\<close>

definition dispatch ::
  "env \<Rightarrow> nat \<Rightarrow> string \<Rightarrow> pyval \<Rightarrow> agent_state \<Rightarrow> agent_state \<times> pyexc option" where
  "dispatch ev i fname function_args s =
     (if fname = ''get_pokemon_by_name'' then tool_get_pokemon_by_name ev function_args s
      else if fname = ''get_pokemon_by_id'' then tool_get_pokemon_by_id ev function_args s
      else if fname = ''get_pokemon_by_type'' then tool_get_pokemon_by_type ev function_args s
      else if fname = ''search_pokemon'' then tool_search_pokemon ev function_args s
      else if fname = ''get_evolution_chain'' then tool_get_evolution_chain ev function_args s
      else if fname = ''get_pokemon_description'' then tool_get_pokemon_description ev function_args s
      else if fname = ''get_all_types'' then tool_get_all_types ev s
      else if fname = ''get_generation_info'' then tool_get_generation_info ev function_args s
      else if fname = ''fetch_all_pokemon'' then tool_fetch_all_pokemon ev function_args s
      else if fname = ''fetch_pokemon_ability'' then tool_fetch_pokemon_ability ev function_args s
      else if fname = ''_research_pokemon_api''
        then with_arg function_args ''pokemon_name'' s (\<lambda>n. (research_pokemon_api ev n s, None))
      else if fname = ''_research_pokemon_web''
        then with_arg function_args ''pokemon_name'' s (\<lambda>n. (research_pokemon_web ev n s, None))
      else if fname = ''_research_training_info'' then (research_training_info ev s, None)
      else if fname = ''_research_unique_pokemon'' then (research_unique_pokemon ev s, None)
      else (log_in WARNING
              (''Unknown function '' @ fname @ '' called by subagent '' @ str_nat (i + 1)) s, None))"

text \<open>
  The body of the \<^verbatim>\<open>try\<close> for one tool call: an absent or empty arguments string stands
  for \<^verbatim>\<open>"{}"\<close>; the string is parsed inside the \<^verbatim>\<open>try\<close>.
\<close>

definition function_args_raw :: "tool_call \<Rightarrow> string" where
  "function_args_raw c =
     (case function_arguments c of None \<Rightarrow> ''{}'' | Some a \<Rightarrow> if a = [] then ''{}'' else a)"

definition dispatch_call :: "env \<Rightarrow> nat \<Rightarrow> tool_call \<Rightarrow> agent_state \<Rightarrow> agent_state \<times> pyexc option" where
  "dispatch_call ev i c s =
     (case json_loads ev (function_args_raw c) of
        Inl e \<Rightarrow> (s, Some e)
      | Inr function_args \<Rightarrow> dispatch ev i (function_name c) function_args s)"

text \<open>One iteration of the loop: the \<^verbatim>\<open>try\<close> and its \<^verbatim>\<open>except\<close>.\<close>

definition call_failure_step :: "env \<Rightarrow> nat \<Rightarrow> tool_call \<Rightarrow> pyexc \<Rightarrow> research_step" where
  "call_failure_step ev i c e =
     failed_step ev SYNTHESIS
       (''Failed research subagent '' @ str_nat (i + 1) @ '' in executing function '' @ function_name c) e"

definition handle_call :: "env \<Rightarrow> nat \<Rightarrow> agent_state \<Rightarrow> tool_call \<Rightarrow> agent_state" where
  "handle_call ev i s c =
     (case dispatch_call ev i c s of
        (s1, None) \<Rightarrow> s1
      | (s1, Some e) \<Rightarrow>
          append_step (call_failure_step ev i c e)
            (log_in ERROR
               (''Error in research subagent '' @ str_nat (i + 1) @ '': '' @ exc_str ev e) s1))"

text \<open>
  \<^verbatim>\<open>_execute_function_calls\<close>: \<^verbatim>\<open>getattr(message, "tool_calls", [])\<close> is \<^verbatim>\<open>None\<close> when the
  reply has no tool calls, and iterating \<^verbatim>\<open>None\<close> raises TypeError.
\<close>

definition execute_function_calls ::
  "env \<Rightarrow> completion \<Rightarrow> nat \<Rightarrow> agent_state \<Rightarrow> agent_state \<times> pyexc option" where
  "execute_function_calls ev response i s =
     (case tool_calls response of
        None \<Rightarrow> (s, Some TypeError)
      | Some calls \<Rightarrow> (foldl (handle_call ev i) s calls, None))"

subsection \<open>Research\<close>

text \<open>
  The worker count of \<^verbatim>\<open>_conducting_research\<close>: anything that is not an \<^verbatim>\<open>int\<close> of at
  least 1 becomes 1. (A bool is an \<^verbatim>\<open>int\<close>: \<^verbatim>\<open>False\<close> is below 1, and \<^verbatim>\<open>True\<close> is kept
  and makes \<^verbatim>\<open>range(True)\<close> one iteration.)
\<close>

definition subagent_count :: "pyval \<Rightarrow> nat" where
  "subagent_count v = (case v of PInt n \<Rightarrow> if n < 1 then 1 else nat n | _ \<Rightarrow> 1)"

definition instruction_list :: "pyval \<Rightarrow> pyval" where
  "instruction_list raw = (case raw of PDict kvs \<Rightarrow> PList (map snd kvs) | _ \<Rightarrow> raw)"

fun py_len :: "pyval \<Rightarrow> pyexc + nat" where
  "py_len (PList xs) = Inr (length xs)"
| "py_len (PStr s) = Inr (length s)"
| "py_len (PDict kvs) = Inr (length kvs)"
| "py_len v = Inl TypeError"

fun py_index :: "pyval \<Rightarrow> nat \<Rightarrow> pyexc + pyval" where
  "py_index (PList xs) i = (if i < length xs then Inr (xs ! i) else Inl IndexError)"
| "py_index (PStr s) i = (if i < length s then Inr (PStr [s ! i]) else Inl IndexError)"
| "py_index (PDict kvs) i = Inl (KeyError (str_nat i))"
| "py_index v i = Inl TypeError"

text \<open>\<^verbatim>\<open>task = subagent_instructions[i] if i < len(subagent_instructions) else ""\<close>.\<close>

definition subagent_task :: "pyval \<Rightarrow> nat \<Rightarrow> pyexc + pyval" where
  "subagent_task subagent_instructions i =
     and_then (py_len subagent_instructions)
       (\<lambda>n. if i < n then py_index subagent_instructions i else Inr (PStr []))"

text \<open>The worker prompt joins the constraints and the Pokemon names, outside any \<^verbatim>\<open>try\<close>.\<close>

definition prompt_ok :: "agent_state \<Rightarrow> bool" where
  "prompt_ok s =
     (py_join_ok (get_data s ''constraints'' (PList []))
      \<and> py_join_ok (get_data s ''pokemon_to_research'' (PList [])))"

definition subagent_key :: "nat \<Rightarrow> string" where
  "subagent_key i = ''subagent_'' @ str_nat (i + 1)"

text \<open>Step 2 of a worker: the inner \<^verbatim>\<open>try\<close>, and with its \<^verbatim>\<open>except\<close>.\<close>

definition synthesis_try :: "env \<Rightarrow> nat \<Rightarrow> agent_state \<Rightarrow> agent_state \<times> pyexc option" where
  "synthesis_try ev i s =
     (if \<not> json_serializable (get_data s (subagent_key i) (PDict [])) then (s, Some TypeError)
      else (case call_llm ev Synthesis s of
              (Inl e, s1) \<Rightarrow> (s1, Some e)
            | (Inr response, s1) \<Rightarrow>
                (case content response of
                   None \<Rightarrow>
                     (s1, Some (RuntimeError (''subagent '' @ str_nat (i + 1) @ '' returned no content'')))
                 | Some c \<Rightarrow>
                     (append_step
                        ((new_step SYNTHESIS
                            (''Completed synthesis for research subagent '' @ str_nat (i + 1)))
                           \<lparr>output_data := Some [(subagent_key i @ ''synthesis'', PStr c)]\<rparr>)
                        (set_data (subagent_key i @ ''_synthesis'') (PStr c) s1), None))))"

definition subagent_synthesis :: "env \<Rightarrow> nat \<Rightarrow> agent_state \<Rightarrow> agent_state" where
  "subagent_synthesis ev i s =
     (case synthesis_try ev i s of
        (s1, None) \<Rightarrow> s1
      | (s1, Some e) \<Rightarrow>
          append_step
            (failed_step ev SYNTHESIS
               (''Failed research subagent '' @ str_nat (i + 1) @ '' in step 2'') e)
            (log_in ERROR
               (''Error in research subagent '' @ str_nat (i + 1) @ '': '' @ exc_str ev e) s1))"

text \<open>
  Step 1 of a worker: the outer \<^verbatim>\<open>try\<close>. The whole batch of tool calls is dispatched once
  per tool call of the reply, and once more after the first step is recorded.
\<close>

fun dispatch_per_call ::
  "env \<Rightarrow> completion \<Rightarrow> nat \<Rightarrow> tool_call list \<Rightarrow> agent_state \<Rightarrow> agent_state \<times> pyexc option" where
  "dispatch_per_call ev response i [] s = (s, None)"
| "dispatch_per_call ev response i (c # cs) s =
     (case execute_function_calls ev response i s of
        (s1, Some e) \<Rightarrow> (s1, Some e)
      | (s1, None) \<Rightarrow> dispatch_per_call ev response i cs s1)"

definition subagent_after_call ::
  "env \<Rightarrow> nat \<Rightarrow> completion \<Rightarrow> agent_state \<Rightarrow> agent_state \<times> pyexc option" where
  "subagent_after_call ev i response s1 =
     (case dispatch_per_call ev response i
             (case tool_calls response of None \<Rightarrow> [] | Some calls \<Rightarrow> calls) s1 of
        (s2, Some e) \<Rightarrow> (s2, Some e)
      | (s2, None) \<Rightarrow>
          if collected_data (ctx s2) = [] \<and> content response = None
          then (s2, Some (RuntimeError (''subagent '' @ str_nat (i + 1) @ '' returned no content'')))
          else (case execute_function_calls ev response i
                       (append_step
                          ((new_step SYNTHESIS (''Completed research subagent '' @ str_nat (i + 1)))
                             \<lparr>output_data := Some (collected_data (ctx s2))\<rparr>) s2) of
                  (s4, Some e) \<Rightarrow> (s4, Some e)
                | (s4, None) \<Rightarrow> (subagent_synthesis ev i s4, None)))"

definition subagent_try :: "env \<Rightarrow> nat \<Rightarrow> agent_state \<Rightarrow> agent_state \<times> pyexc option" where
  "subagent_try ev i s =
     (case call_llm ev ToolCalls s of
        (Inl e, s1) \<Rightarrow> (s1, Some e)
      | (Inr response, s1) \<Rightarrow> subagent_after_call ev i response s1)"

text \<open>One iteration of the worker loop: an exception that escapes it ends the phase.\<close>

definition run_subagent ::
  "env \<Rightarrow> pyval \<Rightarrow> nat \<Rightarrow> agent_state \<Rightarrow> agent_state \<times> pyexc option" where
  "run_subagent ev subagent_instructions i s =
     (case subagent_task subagent_instructions i of
        Inl e \<Rightarrow> (s, Some e)
      | Inr task \<Rightarrow>
          if \<not> prompt_ok s then (s, Some TypeError)
          else (case subagent_try ev i s of
                  (s1, None) \<Rightarrow> (s1, None)
                | (s1, Some e) \<Rightarrow>
                    (append_step
                       (failed_step ev SYNTHESIS
                          (''Failed research subagent '' @ str_nat (i + 1) @ '' in step 1 '') e)
                       (log_in ERROR
                          (''Error in research subagent '' @ str_nat (i + 1) @ '': '' @ exc_str ev e)
                          s1), None)))"

fun run_subagents ::
  "env \<Rightarrow> pyval \<Rightarrow> nat list \<Rightarrow> agent_state \<Rightarrow> agent_state \<times> pyexc option" where
  "run_subagents ev subagent_instructions [] s = (s, None)"
| "run_subagents ev subagent_instructions (i # is) s =
     (case run_subagent ev subagent_instructions i s of
        (s1, Some e) \<Rightarrow> (s1, Some e)
      | (s1, None) \<Rightarrow> run_subagents ev subagent_instructions is s1)"

definition conducting_research :: "env \<Rightarrow> agent_state \<Rightarrow> agent_state \<times> pyexc option" where
  "conducting_research ev s =
     run_subagents ev
       (instruction_list (get_data s ''subagent_instructions'' (PDict [])))
       [0..<subagent_count (get_data s ''num_subagents'' (PInt 1))] s"

subsection \<open>Analyze: up to the refinement decision\<close>

text \<open>\<^verbatim>\<open>refinement_count < max_refinement_cycles\<close> and \<^verbatim>\<open>refinement_count + 1\<close>.\<close>

fun py_less_int :: "pyval \<Rightarrow> int \<Rightarrow> pyexc + bool" where
  "py_less_int (PInt n) m = Inr (n < m)"
| "py_less_int (PBool b) m = Inr ((if b then 1 else 0) < m)"
| "py_less_int (PFloat f) m = Inr (f < of_int m)"
| "py_less_int v m = Inl TypeError"

fun py_add_one :: "pyval \<Rightarrow> pyexc + pyval" where
  "py_add_one (PInt n) = Inr (PInt (n + 1))"
| "py_add_one (PBool b) = Inr (PInt ((if b then 1 else 0) + 1))"
| "py_add_one (PFloat f) = Inr (PFloat (f + 1))"
| "py_add_one v = Inl TypeError"

definition max_refinement_cycles :: int where
  "max_refinement_cycles = 2"

text \<open>
  How far \<^verbatim>\<open>_analyse_findings\<close> gets before it either finishes or re-enters the pipeline:
  \<^item> \<open>Escaped\<close>: building the prompt raised, outside the \<^verbatim>\<open>try\<close>
    (\<^verbatim>\<open>'; '.join(context.clarified_goals)\<close>, \<^verbatim>\<open>json.dumps(context.collected_data)\<close>);
  \<^item> \<open>Caught\<close>: an exception inside the \<^verbatim>\<open>try\<close>;
  \<^item> \<open>Proceed\<close>: no refinement, the analysis step is to be recorded;
  \<^item> \<open>Refine\<close>: the query, \<^verbatim>\<open>refined_query\<close> and \<^verbatim>\<open>refinement_count\<close> are updated and the
    pipeline is to be re-run.
\<close>

datatype analysis_outcome =
    Escaped pyexc
  | Caught pyexc
  | Proceed "(string \<times> pyval) list"
  | Refine "(string \<times> pyval) list"

definition refine_state :: "(string \<times> pyval) list \<Rightarrow> pyval \<Rightarrow> agent_state \<Rightarrow> agent_state" where
  "refine_state analysis_data next_count s =
     (let refined_query = (case map_of analysis_data ''refined_query'' of
                             None \<Rightarrow> original_query (ctx s) | Some v \<Rightarrow> v)
      in set_data ''refinement_count'' next_count
           (set_data ''refined_query'' refined_query
              (s\<lparr>ctx := (ctx s)\<lparr>original_query := refined_query\<rparr>\<rparr>)))"

definition analyse_decide :: "pyval \<Rightarrow> agent_state \<Rightarrow> agent_state \<times> analysis_outcome" where
  "analyse_decide analysis_data s1 =
     (let s2 = set_data ''analysis'' analysis_data s1;
          refinement_count = get_data s2 ''refinement_count'' (PInt 0)
      in case analysis_data of
           PDict kvs \<Rightarrow>
             (if \<not> py_truthy (case map_of kvs ''further_research_needed'' of
                                 None \<Rightarrow> PBool False | Some v \<Rightarrow> v)
              then (s2, Proceed kvs)
              else (case py_less_int refinement_count max_refinement_cycles of
                      Inl e \<Rightarrow> (s2, Caught e)
                    | Inr False \<Rightarrow> (s2, Proceed kvs)
                    | Inr True \<Rightarrow>
                        (case py_add_one refinement_count of
                           Inl e \<Rightarrow> (s2, Caught e)
                         | Inr next_count \<Rightarrow> (refine_state kvs next_count s2, Refine kvs))))
         | _ \<Rightarrow> (s2, Caught AttributeError))"

definition analyse_begin :: "env \<Rightarrow> agent_state \<Rightarrow> agent_state \<times> analysis_outcome" where
  "analyse_begin ev s =
     (if \<not> py_join_ok (clarified_goals (ctx s)) then (s, Escaped TypeError)
      else if \<not> json_serializable (PDict (collected_data (ctx s))) then (s, Escaped TypeError)
      else (case call_llm ev Analyze s of
              (Inl e, s1) \<Rightarrow> (s1, Caught e)
            | (Inr response, s1) \<Rightarrow>
                (case content response of
                   None \<Rightarrow> (s1, Caught (RuntimeError ''LLM returned no analysis content''))
                 | Some c \<Rightarrow>
                     (case json_loads ev (py_strip c) of
                        Inl e \<Rightarrow> (s1, Caught e)
                      | Inr analysis_data \<Rightarrow> analyse_decide analysis_data s1))))"

definition analysis_failed :: "env \<Rightarrow> pyexc \<Rightarrow> agent_state \<Rightarrow> agent_state" where
  "analysis_failed ev e s = log_in ERROR (''Error in analysis: '' @ exc_str ev e) s"

definition analysis_step :: "(string \<times> pyval) list \<Rightarrow> research_step" where
  "analysis_step analysis_data =
     (new_step ANALYSIS
        ''Analysed all research findings, ran multiple research cycles if needed and generated insights'')
       \<lparr>output_data := Some analysis_data\<rparr>"

section \<open>What an operation may change\<close>

text \<open>
  The invariant of the step ledger: a step that failed carries an error message.
\<close>

definition step_ok :: "research_step \<Rightarrow> bool" where
  "step_ok st = (success st \<or> error_message st \<noteq> None)"

text \<open>
  The keys of \<^verbatim>\<open>collected_data\<close> that Clarify, Research and the dispatcher write.
\<close>

definition research_writes :: "string \<Rightarrow> bool" where
  "research_writes k =
     (prefix ''pokemon_'' k \<or> prefix ''search_'' k \<or> prefix ''evolution_chain_'' k
      \<or> prefix ''description_'' k \<or> k = ''all_types'' \<or> prefix ''generation_'' k
      \<or> prefix ''all_pokemon_'' k \<or> prefix ''ability_'' k \<or> prefix ''web_data_'' k
      \<or> k = ''training_research'' \<or> k = ''unique_pokemon'' \<or> prefix ''subagent_'' k
      \<or> k \<in> set [''research_focus'', ''constraints'', ''subagent_instructions'', ''num_subagents''])"

text \<open>
  \<open>evolves W P s s'\<close>: from \<open>s\<close> to \<open>s'\<close> only keys in \<open>W\<close> of the scratchpad were
  written, no key was removed, the ledger only grew, by steps that satisfy its invariant, and the oracle was
  called only by phases in \<open>P\<close>.
\<close>

definition evolves :: "(string \<Rightarrow> bool) \<Rightarrow> phase set \<Rightarrow> agent_state \<Rightarrow> agent_state \<Rightarrow> bool" where
  "evolves W P s s' =
     ((\<forall>k. \<not> W k \<longrightarrow> map_of (collected_data (ctx s')) k = map_of (collected_data (ctx s)) k)
      \<and> dom (map_of (collected_data (ctx s))) \<subseteq> dom (map_of (collected_data (ctx s')))
      \<and> (\<exists>new. research_steps (ctx s') = research_steps (ctx s) @ new \<and> list_all step_ok new)
      \<and> (\<exists>t. llm_calls (wld s') = llm_calls (wld s) @ t \<and> set t \<subseteq> P))"

named_theorems evolves_intros

lemma evolves_refl [evolves_intros]: "evolves W P s s"
  by (simp add: evolves_def)

lemma evolves_trans: "evolves W P s s1 \<Longrightarrow> evolves W P s1 s2 \<Longrightarrow> evolves W P s s2"
  unfolding evolves_def by (elim conjE exE) auto

lemma evolves_weaken:
  "evolves W P s s' \<Longrightarrow> (\<And>k. W k \<Longrightarrow> W' k) \<Longrightarrow> P \<subseteq> P' \<Longrightarrow> evolves W' P' s s'"
  unfolding evolves_def by blast

lemma evolves_set_data [evolves_intros]:
  "W k \<Longrightarrow> evolves W P s s1 \<Longrightarrow> evolves W P s (set_data k v s1)"
  unfolding evolves_def set_data_def by (auto simp: update_conv')

lemma evolves_append_step [evolves_intros]:
  "step_ok st \<Longrightarrow> evolves W P s s1 \<Longrightarrow> evolves W P s (append_step st s1)"
  unfolding evolves_def append_step_def by auto

lemma evolves_set_world [evolves_intros]:
  "llm_calls w = llm_calls (wld s1) \<Longrightarrow> evolves W P s s1 \<Longrightarrow> evolves W P s (set_world w s1)"
  unfolding evolves_def set_world_def by auto

lemma evolves_log_in [evolves_intros]:
  "evolves W P s s1 \<Longrightarrow> evolves W P s (log_in lvl msg s1)"
  unfolding evolves_def log_in_def log_msg_def by auto

lemma evolves_call_llm:
  "call_llm ev ph s1 = (r, s2) \<Longrightarrow> ph \<in> P \<Longrightarrow> evolves W P s s1 \<Longrightarrow> evolves W P s s2"
  unfolding evolves_def call_llm_def by (elim conjE exE) auto

lemma step_ok_simps [simp]:
  "step_ok (failed_step ev t d e)"
  "step_ok (new_step t d)"
  "step_ok ((new_step t d)\<lparr>output_data := od\<rparr>)"
  "step_ok ((new_step t d)\<lparr>output_data := od, sources := ss\<rparr>)"
  by (simp_all add: step_ok_def failed_step_def new_step_def)

lemma research_writes_simps [simp]:
  "research_writes (''pokemon_'' @ x)"
  "research_writes (''pokemon_id_'' @ x)"
  "research_writes (''pokemon_type_'' @ x)"
  "research_writes (''search_'' @ x)"
  "research_writes (''evolution_chain_'' @ x)"
  "research_writes (''description_'' @ x)"
  "research_writes ''all_types''"
  "research_writes (''generation_'' @ x)"
  "research_writes (''all_pokemon_'' @ x)"
  "research_writes (''ability_'' @ x)"
  "research_writes (''web_data_'' @ x)"
  "research_writes ''training_research''"
  "research_writes ''unique_pokemon''"
  "research_writes (''subagent_'' @ x)"
  "research_writes ''pokemon_to_research''"
  "research_writes ''research_focus''"
  "research_writes ''constraints''"
  "research_writes ''subagent_instructions''"
  "research_writes ''num_subagents''"
  "\<not> research_writes ''refinement_count''"
  by (simp_all add: research_writes_def)

lemma make_request_trace: "make_request ev w ep = (d, w') \<Longrightarrow> llm_calls w' = llm_calls w"
  by (auto simp: make_request_def log_msg_def Let_def split: http_result.splits sum.splits if_splits)

lemma get_pokemon_by_name_trace:
  "get_pokemon_by_name ev w nm = (r, w') \<Longrightarrow> llm_calls w' = llm_calls w"
  by (auto simp: get_pokemon_by_name_def split: sum.splits prod.splits if_splits
           dest!: make_request_trace)

lemma get_pokemon_by_id_trace:
  "get_pokemon_by_id ev w nm = (r, w') \<Longrightarrow> llm_calls w' = llm_calls w"
  by (auto simp: get_pokemon_by_id_def dest!: get_pokemon_by_name_trace)

lemma lookup_each_trace:
  "lookup_each ev sel xs w = (r, w') \<Longrightarrow> llm_calls w' = llm_calls w"
proof (induction xs arbitrary: w r w')
  case Nil
  then show ?case by simp
next
  case (Cons x xs)
  then show ?case
    by (auto split: sum.splits option.splits prod.splits dest!: get_pokemon_by_name_trace)
qed

lemma get_pokemon_by_type_trace:
  "get_pokemon_by_type ev w t = (r, w') \<Longrightarrow> llm_calls w' = llm_calls w"
  by (auto simp: get_pokemon_by_type_def split: sum.splits prod.splits if_splits
           dest!: make_request_trace lookup_each_trace)

lemma search_pokemon_trace:
  "search_pokemon ev w q = (r, w') \<Longrightarrow> llm_calls w' = llm_calls w"
  by (auto simp: search_pokemon_def split: sum.splits prod.splits if_splits
           dest!: make_request_trace lookup_each_trace)

lemma get_evolution_chain_trace:
  "get_evolution_chain ev w n = (r, w') \<Longrightarrow> llm_calls w' = llm_calls w"
  by (auto simp: get_evolution_chain_def split: sum.splits prod.splits if_splits
           dest!: make_request_trace)

lemma get_pokemon_description_trace:
  "get_pokemon_description ev w n = (r, w') \<Longrightarrow> llm_calls w' = llm_calls w"
  by (auto simp: get_pokemon_description_def split: sum.splits prod.splits if_splits
           dest!: make_request_trace)

lemma get_all_types_trace:
  "get_all_types ev w = (r, w') \<Longrightarrow> llm_calls w' = llm_calls w"
  by (auto simp: get_all_types_def split: sum.splits prod.splits if_splits
           dest!: make_request_trace)

lemma get_generation_info_trace:
  "get_generation_info ev w g = (r, w') \<Longrightarrow> llm_calls w' = llm_calls w"
  by (auto simp: get_generation_info_def split: sum.splits prod.splits if_splits
           dest!: make_request_trace)

lemma training_loop_trace:
  "training_loop ev ns w = (r, w') \<Longrightarrow> llm_calls w' = llm_calls w"
proof (induction ns arbitrary: w r w')
  case Nil
  then show ?case by simp
next
  case (Cons n ns)
  then show ?case
    by (auto split: sum.splits option.splits prod.splits
             dest!: get_pokemon_by_name_trace get_evolution_chain_trace)
qed

lemma unique_loop_trace:
  "unique_loop ev q cs w = (r, w') \<Longrightarrow> llm_calls w' = llm_calls w"
proof (induction cs arbitrary: w r w')
  case Nil
  then show ?case by simp
next
  case (Cons c cs)
  then show ?case
    by (auto split: sum.splits option.splits prod.splits if_splits dest!: search_pokemon_trace)
qed

lemmas adapter_trace = get_pokemon_by_name_trace get_pokemon_by_id_trace get_pokemon_by_type_trace
  search_pokemon_trace get_evolution_chain_trace get_pokemon_description_trace get_all_types_trace
  get_generation_info_trace training_loop_trace unique_loop_trace

lemma and_then_eq_Inr: "(and_then r f = Inr y) = (\<exists>x. r = Inr x \<and> f x = Inr y)"
  by (cases r) simp_all

lemma with_arg_evolves:
  assumes "with_arg function_args k s body = (s', r)" and "evolves W P s0 s"
    and "\<And>a s' r. body a = (s', r) \<Longrightarrow> evolves W P s0 s'"
  shows "evolves W P s0 s'"
  using assms by (auto simp: with_arg_def split: sum.splits if_splits)

lemma tool_get_pokemon_by_name_evolves:
  "tool_get_pokemon_by_name ev function_args s = (s', r) \<Longrightarrow> evolves research_writes P s0 s
     \<Longrightarrow> evolves research_writes P s0 s'"
  unfolding tool_get_pokemon_by_name_def
  by (erule with_arg_evolves)
     (auto simp: research_writes_def split: sum.splits option.splits prod.splits
           intro!: evolves_intros dest!: adapter_trace)

lemma tool_get_pokemon_by_id_evolves:
  "tool_get_pokemon_by_id ev function_args s = (s', r) \<Longrightarrow> evolves research_writes P s0 s
     \<Longrightarrow> evolves research_writes P s0 s'"
  unfolding tool_get_pokemon_by_id_def
  by (erule with_arg_evolves)
     (auto simp: research_writes_def split: sum.splits option.splits prod.splits
           intro!: evolves_intros dest!: adapter_trace)

lemma tool_get_pokemon_by_type_evolves:
  "tool_get_pokemon_by_type ev function_args s = (s', r) \<Longrightarrow> evolves research_writes P s0 s
     \<Longrightarrow> evolves research_writes P s0 s'"
  unfolding tool_get_pokemon_by_type_def
  by (erule with_arg_evolves)
     (auto simp: research_writes_def split: sum.splits option.splits prod.splits
           intro!: evolves_intros dest!: adapter_trace)

lemma tool_search_pokemon_evolves:
  "tool_search_pokemon ev function_args s = (s', r) \<Longrightarrow> evolves research_writes P s0 s
     \<Longrightarrow> evolves research_writes P s0 s'"
  unfolding tool_search_pokemon_def
  by (erule with_arg_evolves)
     (auto simp: research_writes_def split: sum.splits option.splits prod.splits
           intro!: evolves_intros dest!: adapter_trace)

lemma tool_get_evolution_chain_evolves:
  "tool_get_evolution_chain ev function_args s = (s', r) \<Longrightarrow> evolves research_writes P s0 s
     \<Longrightarrow> evolves research_writes P s0 s'"
  unfolding tool_get_evolution_chain_def
  by (erule with_arg_evolves)
     (auto simp: research_writes_def split: sum.splits option.splits prod.splits
           intro!: evolves_intros dest!: adapter_trace)

lemma tool_get_pokemon_description_evolves:
  "tool_get_pokemon_description ev function_args s = (s', r) \<Longrightarrow> evolves research_writes P s0 s
     \<Longrightarrow> evolves research_writes P s0 s'"
  unfolding tool_get_pokemon_description_def
  by (erule with_arg_evolves)
     (auto simp: research_writes_def split: sum.splits option.splits prod.splits
           intro!: evolves_intros dest!: adapter_trace)

lemma tool_get_generation_info_evolves:
  "tool_get_generation_info ev function_args s = (s', r) \<Longrightarrow> evolves research_writes P s0 s
     \<Longrightarrow> evolves research_writes P s0 s'"
  unfolding tool_get_generation_info_def
  by (erule with_arg_evolves)
     (auto simp: research_writes_def split: sum.splits option.splits prod.splits
           intro!: evolves_intros dest!: adapter_trace)

lemma tool_fetch_pokemon_ability_evolves:
  "tool_fetch_pokemon_ability ev function_args s = (s', r) \<Longrightarrow> evolves research_writes P s0 s
     \<Longrightarrow> evolves research_writes P s0 s'"
  unfolding tool_fetch_pokemon_ability_def
  by (erule with_arg_evolves)
     (auto simp: research_writes_def split: sum.splits option.splits prod.splits
           intro!: evolves_intros dest!: adapter_trace)

lemma tool_get_all_types_evolves:
  "tool_get_all_types ev s = (s', r) \<Longrightarrow> evolves research_writes P s0 s
     \<Longrightarrow> evolves research_writes P s0 s'"
  unfolding tool_get_all_types_def
  by (auto simp: research_writes_def split: sum.splits option.splits prod.splits
           intro!: evolves_intros dest!: adapter_trace)

lemma tool_fetch_all_pokemon_evolves:
  "tool_fetch_all_pokemon ev function_args s = (s', r) \<Longrightarrow> evolves research_writes P s0 s
     \<Longrightarrow> evolves research_writes P s0 s'"
  unfolding tool_fetch_all_pokemon_def
  by (auto simp: research_writes_def and_then_eq_Inr split: sum.splits intro!: evolves_intros)

lemma research_pokemon_api_evolves:
  "evolves research_writes P s0 s \<Longrightarrow> evolves research_writes P s0 (research_pokemon_api ev n s)"
  unfolding research_pokemon_api_def research_pokemon_api_try_def
  by (auto simp: research_writes_def Let_def split: sum.splits option.splits prod.splits
           intro!: evolves_intros dest!: adapter_trace)

lemma research_pokemon_web_evolves:
  "evolves research_writes P s0 s \<Longrightarrow> evolves research_writes P s0 (research_pokemon_web ev n s)"
  unfolding research_pokemon_web_def research_pokemon_web_try_def
  by (auto simp: research_writes_def Let_def split: sum.splits option.splits prod.splits
           intro!: evolves_intros)

lemma research_training_info_evolves:
  "evolves research_writes P s0 s \<Longrightarrow> evolves research_writes P s0 (research_training_info ev s)"
  unfolding research_training_info_def
  by (auto simp: research_writes_def split: sum.splits option.splits prod.splits
           intro!: evolves_intros dest!: adapter_trace)

lemma research_unique_pokemon_evolves:
  "evolves research_writes P s0 s \<Longrightarrow> evolves research_writes P s0 (research_unique_pokemon ev s)"
  unfolding research_unique_pokemon_def
  by (auto simp: research_writes_def split: sum.splits option.splits prod.splits
           intro!: evolves_intros dest!: adapter_trace)

lemmas tool_evolves = tool_get_pokemon_by_name_evolves tool_get_pokemon_by_id_evolves
  tool_get_pokemon_by_type_evolves tool_search_pokemon_evolves tool_get_evolution_chain_evolves
  tool_get_pokemon_description_evolves tool_get_generation_info_evolves
  tool_fetch_pokemon_ability_evolves tool_get_all_types_evolves tool_fetch_all_pokemon_evolves

lemma dispatch_evolves:
  assumes "dispatch ev i fname function_args s = (s', r)" and "evolves research_writes P s0 s"
  shows "evolves research_writes P s0 s'"
proof -
  note helpers = research_pokemon_api_evolves research_pokemon_web_evolves
    research_training_info_evolves research_unique_pokemon_evolves
  show ?thesis
    using assms unfolding dispatch_def
    by (auto split: if_splits elim: tool_evolves with_arg_evolves intro: helpers evolves_log_in)
qed

lemma handle_call_evolves:
  "evolves research_writes P s0 s \<Longrightarrow> evolves research_writes P s0 (handle_call ev i s c)"
  unfolding handle_call_def dispatch_call_def call_failure_step_def
  by (auto split: sum.splits option.splits prod.splits intro!: evolves_intros
           elim: dispatch_evolves)

lemma foldl_handle_call_evolves:
  "evolves research_writes P s0 s
     \<Longrightarrow> evolves research_writes P s0 (foldl (handle_call ev i) s calls)"
  by (induction calls arbitrary: s) (auto intro: handle_call_evolves)

lemma execute_function_calls_evolves:
  "execute_function_calls ev response i s = (s', r) \<Longrightarrow> evolves research_writes P s0 s
     \<Longrightarrow> evolves research_writes P s0 s'"
  unfolding execute_function_calls_def
  by (auto split: option.splits intro: foldl_handle_call_evolves)

lemma dispatch_per_call_evolves:
  "dispatch_per_call ev response i cs s = (s', r) \<Longrightarrow> evolves research_writes P s0 s
     \<Longrightarrow> evolves research_writes P s0 s'"
proof (induction cs arbitrary: s)
  case Nil
  then show ?case by simp
next
  case (Cons c cs)
  obtain s1 r1 where x: "execute_function_calls ev response i s = (s1, r1)"
    by (cases "execute_function_calls ev response i s")
  have e1: "evolves research_writes P s0 s1"
    using execute_function_calls_evolves[OF x Cons.prems(2)] .
  show ?case
  proof (cases r1)
    case None
    with Cons.prems(1) x have "dispatch_per_call ev response i cs s1 = (s', r)" by simp
    then show ?thesis using Cons.IH e1 by blast
  next
    case (Some e)
    with Cons.prems(1) x e1 show ?thesis by simp
  qed
qed

lemma subagent_synthesis_evolves:
  "Synthesis \<in> P \<Longrightarrow> evolves research_writes P s0 s
     \<Longrightarrow> evolves research_writes P s0 (subagent_synthesis ev i s)"
  unfolding subagent_synthesis_def synthesis_try_def subagent_key_def
  by (auto simp: research_writes_def split: sum.splits option.splits prod.splits if_splits
           intro!: evolves_intros elim: evolves_call_llm)

lemma subagent_after_call_evolves:
  assumes run: "subagent_after_call ev i response s1 = (s', r)" and ph: "Synthesis \<in> P"
    and e1: "evolves research_writes P s0 s1"
  shows "evolves research_writes P s0 s'"
proof -
  obtain s2 r2 where d: "dispatch_per_call ev response i
      (case tool_calls response of None \<Rightarrow> [] | Some calls \<Rightarrow> calls) s1 = (s2, r2)"
    by (cases "dispatch_per_call ev response i
      (case tool_calls response of None \<Rightarrow> [] | Some calls \<Rightarrow> calls) s1")
  have e2: "evolves research_writes P s0 s2" using dispatch_per_call_evolves[OF d e1] .
  show ?thesis
  proof (cases r2)
    case (Some e)
    with run d e2 show ?thesis by (simp add: subagent_after_call_def)
  next
    case None
    show ?thesis
    proof (cases "collected_data (ctx s2) = [] \<and> content response = None")
      case True
      with run d None e2 show ?thesis by (simp add: subagent_after_call_def)
    next
      case False
      define st where "st = (new_step SYNTHESIS (''Completed research subagent '' @ str_nat (i + 1)))
                                \<lparr>output_data := Some (collected_data (ctx s2))\<rparr>"
      obtain s4 r4 where x: "execute_function_calls ev response i (append_step st s2) = (s4, r4)"
        by (cases "execute_function_calls ev response i (append_step st s2)")
      have "step_ok st" by (simp add: st_def)
      then have e3: "evolves research_writes P s0 (append_step st s2)"
        using e2 by (rule evolves_append_step)
      have e4: "evolves research_writes P s0 s4"
        using execute_function_calls_evolves[OF x e3] .
      have "s' = (case r4 of None \<Rightarrow> subagent_synthesis ev i s4 | Some e \<Rightarrow> s4)"
        using run d None False x
        by (auto simp: subagent_after_call_def st_def split: option.splits)
      then show ?thesis
        using e4 subagent_synthesis_evolves[OF ph e4] by (cases r4) simp_all
    qed
  qed
qed

lemma subagent_try_evolves:
  assumes run: "subagent_try ev i s = (s', r)" and ph: "ToolCalls \<in> P" "Synthesis \<in> P"
    and e0: "evolves research_writes P s0 s"
  shows "evolves research_writes P s0 s'"
proof -
  obtain r1 s1 where c: "call_llm ev ToolCalls s = (r1, s1)"
    by (cases "call_llm ev ToolCalls s")
  have e1: "evolves research_writes P s0 s1" using evolves_call_llm[OF c ph(1) e0] .
  show ?thesis
  proof (cases r1)
    case (Inl e)
    with run c e1 show ?thesis by (simp add: subagent_try_def)
  next
    case (Inr response)
    with run c have "subagent_after_call ev i response s1 = (s', r)"
      by (simp add: subagent_try_def)
    then show ?thesis using ph(2) e1 by (rule subagent_after_call_evolves)
  qed
qed

lemma run_subagent_evolves:
  assumes run: "run_subagent ev instrs i s = (s', r)" and ph: "ToolCalls \<in> P" "Synthesis \<in> P"
    and e0: "evolves research_writes P s0 s"
  shows "evolves research_writes P s0 s'"
proof -
  obtain s1 r1 where t: "subagent_try ev i s = (s1, r1)" by (cases "subagent_try ev i s")
  have e1: "evolves research_writes P s0 s1" using subagent_try_evolves[OF t ph e0] .
  show ?thesis
    using run t e0 e1 unfolding run_subagent_def
    by (auto split: sum.splits if_splits option.splits intro!: evolves_intros)
qed

lemma run_subagents_evolves:
  "run_subagents ev instrs is s = (s', r) \<Longrightarrow> ToolCalls \<in> P \<Longrightarrow> Synthesis \<in> P
     \<Longrightarrow> evolves research_writes P s0 s \<Longrightarrow> evolves research_writes P s0 s'"
proof (induction "is" arbitrary: s)
  case Nil
  then show ?case by simp
next
  case (Cons i "is")
  obtain s1 r1 where t: "run_subagent ev instrs i s = (s1, r1)"
    by (cases "run_subagent ev instrs i s")
  have e1: "evolves research_writes P s0 s1"
    using run_subagent_evolves[OF t Cons.prems(2,3,4)] .
  show ?case
  proof (cases r1)
    case None
    with Cons.prems(1) t have "run_subagents ev instrs is s1 = (s', r)" by simp
    then show ?thesis using Cons.IH Cons.prems(2,3) e1 by blast
  next
    case (Some e)
    with Cons.prems(1) t e1 show ?thesis by simp
  qed
qed

lemma conducting_research_evolves:
  "conducting_research ev s = (s', r) \<Longrightarrow> ToolCalls \<in> P \<Longrightarrow> Synthesis \<in> P
     \<Longrightarrow> evolves research_writes P s0 s \<Longrightarrow> evolves research_writes P s0 s'"
  unfolding conducting_research_def by (rule run_subagents_evolves)

lemma clarify_body_evolves:
  assumes run: "clarify_body ev response s = (s', r)" and e0: "evolves research_writes P s0 s"
  shows "evolves research_writes P s0 s'"
proof (cases "content response")
  case None
  with run e0 show ?thesis by (simp add: clarify_body_def)
next
  case (Some c)
  show ?thesis
  proof (cases "json_loads ev (py_strip c)")
    case (Inl e)
    with run e0 Some show ?thesis by (simp add: clarify_body_def)
  next
    case (Inr clarification_data)
    have goals: "\<And>g. evolves research_writes P s0 (s\<lparr>ctx := (ctx s)\<lparr>clarified_goals := g\<rparr>\<rparr>)"
      using e0 unfolding evolves_def by simp
    show ?thesis
    proof (cases clarification_data)
      case (PDict kvs)
      with run Some Inr show ?thesis
        by (auto simp: clarify_body_def Let_def research_writes_def goals intro!: evolves_intros)
    qed (use run e0 Some Inr in \<open>simp_all add: clarify_body_def\<close>)
  qed
qed

lemma clarify_goals_evolves:
  assumes run: "clarify_goals ev s = (s', r)" and ph: "Clarify \<in> P"
    and e0: "evolves research_writes P s0 s"
  shows "evolves research_writes P s0 s'"
proof -
  obtain r1 s1 where c: "call_llm ev Clarify s = (r1, s1)" by (cases "call_llm ev Clarify s")
  have e1: "evolves research_writes P s0 s1" using evolves_call_llm[OF c ph e0] .
  show ?thesis
  proof (cases r1)
    case (Inl e)
    with run c e1 show ?thesis by (simp add: clarify_goals_def)
  next
    case (Inr response)
    obtain s2 r2 where b: "clarify_body ev response s1 = (s2, r2)"
      by (cases "clarify_body ev response s1")
    have e2: "evolves research_writes P s0 s2" using clarify_body_evolves[OF b e1] .
    show ?thesis
      using run c Inr b e2
      by (cases r2) (auto simp: clarify_goals_def intro!: evolves_intros)
  qed
qed

subsection \<open>Analyze: the bounded refinement loop\<close>

text \<open>
  The refinement cycles still allowed by the counter stored in the scratchpad: the
  measure by which the recursion of \<^verbatim>\<open>_analyse_findings\<close> terminates.
\<close>

definition refinements_left :: "agent_state \<Rightarrow> nat" where
  "refinements_left s =
     (case map_of (collected_data (ctx s)) ''refinement_count'' of
        None \<Rightarrow> 2
      | Some (PInt n) \<Rightarrow> nat (2 - n)
      | Some (PBool b) \<Rightarrow> (if b then 1 else 2)
      | Some (PFloat f) \<Rightarrow> nat \<lceil>2 - f\<rceil>
      | Some v \<Rightarrow> 0)"

lemma evolves_refinements_left:
  "evolves research_writes P s s' \<Longrightarrow> refinements_left s' = refinements_left s"
  unfolding evolves_def refinements_left_def by (simp add: research_writes_def)

lemma refinement_count_after:
  "map_of (collected_data (ctx (refine_state kvs v s))) ''refinement_count'' = Some v"
  by (simp add: refine_state_def set_data_def Let_def update_conv')

lemma analyse_decide_refine:
  assumes "analyse_decide ad s = (s1, Refine kvs)"
  shows "refinements_left s1 < refinements_left s"
proof -
  define s2 where "s2 = set_data ''analysis'' ad s"
  define rc where "rc = get_data s2 ''refinement_count'' (PInt 0)"
  have same: "map_of (collected_data (ctx s2)) ''refinement_count''
                = map_of (collected_data (ctx s)) ''refinement_count''"
    by (simp add: s2_def set_data_def update_conv')
  from assms obtain nc where lt: "py_less_int rc max_refinement_cycles = Inr True"
    and nc: "py_add_one rc = Inr nc" and s1: "s1 = refine_state kvs nc s2"
    unfolding analyse_decide_def s2_def[symmetric] Let_def rc_def[symmetric]
    by (auto split: pyval.splits if_splits sum.splits bool.splits)
  have left1: "refinements_left s1 = (case nc of PInt n \<Rightarrow> nat (2 - n) | PBool b \<Rightarrow> (if b then 1 else 2)
      | PFloat f \<Rightarrow> nat \<lceil>2 - f\<rceil> | _ \<Rightarrow> 0)"
    unfolding refinements_left_def s1 refinement_count_after by simp
  have left0: "refinements_left s = (case map_of (collected_data (ctx s2)) ''refinement_count'' of
        None \<Rightarrow> 2 | Some (PInt n) \<Rightarrow> nat (2 - n) | Some (PBool b) \<Rightarrow> (if b then 1 else 2)
      | Some (PFloat f) \<Rightarrow> nat \<lceil>2 - f\<rceil> | Some v \<Rightarrow> 0)"
    unfolding refinements_left_def same ..
  show ?thesis
  proof (cases "map_of (collected_data (ctx s2)) ''refinement_count''")
    case None
    then have "rc = PInt 0" by (simp add: rc_def get_data_def)
    with nc have "nc = PInt 1" by auto
    with left1 left0 None show ?thesis by simp
  next
    case (Some v)
    then have rcv: "rc = v" by (simp add: rc_def get_data_def)
    show ?thesis
    proof (cases v)
      case (PInt n)
      with lt nc rcv have "n < 2" "nc = PInt (n + 1)" by (auto simp: max_refinement_cycles_def)
      with left1 left0 Some PInt show ?thesis by simp
    next
      case (PBool b)
      with nc rcv have "nc = PInt ((if b then 1 else 0) + 1)" by auto
      with left1 left0 Some PBool show ?thesis by simp
    next
      case (PFloat f)
      with lt nc rcv have f: "f < 2" "nc = PFloat (f + 1)" by (auto simp: max_refinement_cycles_def)
      have "\<lceil>2 - (f + 1)\<rceil> = \<lceil>2 - f\<rceil> - 1" by (simp add: algebra_simps) linarith
      moreover have "0 < \<lceil>2 - f\<rceil>" using f by simp
      ultimately show ?thesis using left1 left0 Some PFloat f by simp
    qed (use lt rcv in simp_all)
  qed
qed

lemma analyse_begin_refine:
  "analyse_begin ev s = (s1, Refine kvs) \<Longrightarrow> refinements_left s1 < refinements_left s"
proof -
  assume a: "analyse_begin ev s = (s1, Refine kvs)"
  then obtain ad r sa where c: "call_llm ev Analyze s = (r, sa)" and d: "analyse_decide ad sa = (s1, Refine kvs)"
    unfolding analyse_begin_def
    by (auto split: if_splits sum.splits option.splits prod.splits)
  have "refinements_left sa = refinements_left s"
    using c by (auto simp: call_llm_def refinements_left_def)
  with analyse_decide_refine[OF d] show ?thesis by simp
qed


text \<open>
  \<^verbatim>\<open>_analyse_findings\<close>. On a refinement the three phases are re-entered inside the
  \<^verbatim>\<open>try\<close>: whatever escapes them is logged by the handler, and the analysis step of the
  outer invocation is then not recorded.
\<close>

function analyse_findings :: "env \<Rightarrow> agent_state \<Rightarrow> agent_state \<times> pyexc option" where
  "analyse_findings ev s =
     (case analyse_begin ev s of
        (s1, Escaped e) \<Rightarrow> (s1, Some e)
      | (s1, Caught e) \<Rightarrow> (analysis_failed ev e s1, None)
      | (s1, Proceed analysis_data) \<Rightarrow> (append_step (analysis_step analysis_data) s1, None)
      | (s1, Refine analysis_data) \<Rightarrow>
          (case clarify_goals ev s1 of
             (s2, Some e) \<Rightarrow> (analysis_failed ev e s2, None)
           | (s2, None) \<Rightarrow>
               (case conducting_research ev s2 of
                  (s3, Some e) \<Rightarrow> (analysis_failed ev e s3, None)
                | (s3, None) \<Rightarrow>
                    (case analyse_findings ev s3 of
                       (s4, Some e) \<Rightarrow> (analysis_failed ev e s4, None)
                     | (s4, None) \<Rightarrow> (append_step (analysis_step analysis_data) s4, None)))))"
  by pat_completeness auto
termination
proof (relation "measure (\<lambda>(ev, s). refinements_left s)")
  show "wf (measure (\<lambda>(ev, s). refinements_left s))" by simp
next
  fix ev s s1 oc kvs s2 r2 s3 r3
  assume a: "(s1, oc) = analyse_begin ev s" "oc = Refine kvs"
    and b: "(s2, r2) = clarify_goals ev s1" "r2 = None"
    and c: "(s3, r3) = conducting_research ev s2" "r3 = None"
  have "analyse_begin ev s = (s1, Refine kvs)" using a by simp
  then have lt: "refinements_left s1 < refinements_left s" by (rule analyse_begin_refine)
  have e2: "evolves research_writes UNIV s1 s2"
    using clarify_goals_evolves[of ev s1 s2 r2 UNIV s1] b by (simp add: evolves_refl)
  have e3: "evolves research_writes UNIV s2 s3"
    using conducting_research_evolves[of ev s2 s3 r3 UNIV s2] c by (simp add: evolves_refl)
  have "refinements_left s3 = refinements_left s1"
    using evolves_refinements_left[OF e2] evolves_refinements_left[OF e3] by simp
  with lt show "((ev, s3), (ev, s)) \<in> measure (\<lambda>(ev, s). refinements_left s)" by simp
qed

declare analyse_findings.simps [simp del]

subsection \<open>Report and run\<close>

text \<open>
  The validation of \<^verbatim>\<open>ResearchReport\<close>: the query is a string, recommendations and
  limitations are lists of strings, the confidence score is a number between 0 and 1.
\<close>

definition as_list_of_str :: "pyval \<Rightarrow> string list option" where
  "as_list_of_str v = (case v of PList xs \<Rightarrow> as_str_list xs | _ \<Rightarrow> None)"

definition as_score :: "pyval \<Rightarrow> rat option" where
  "as_score v =
     Option.bind (case v of PInt n \<Rightarrow> Some (of_int n) | PFloat f \<Rightarrow> Some f | _ \<Rightarrow> None)
       (\<lambda>x. if 0 \<le> x \<and> x \<le> 1 then Some x else None)"

text \<open>
  The sources of the ledger, flattened, without duplicates (\<^verbatim>\<open>list(set(all_sources))\<close>).
  Python leaves the order of the result open; the model keeps the order of \<open>remdups\<close>,
  and nothing below depends on it.
\<close>

definition all_sources :: "research_step list \<Rightarrow> string list" where
  "all_sources steps = remdups (concat (map sources steps))"

definition build_report :: "string \<Rightarrow> agent_state \<Rightarrow> pyexc + research_report" where
  "build_report report_content s =
     (let analysis_data = get_data s ''analysis'' (PDict [])
      in and_then (dict_get analysis_data ''recommendations'' (PList [])) (\<lambda>recs.
         and_then (dict_get analysis_data ''confidence_score'' (PFloat (7 / 10))) (\<lambda>score.
         and_then (dict_get analysis_data ''limitations'' (PList [])) (\<lambda>lims.
           case Option.bind (as_str (original_query (ctx s))) (\<lambda>q.
                Option.bind (as_list_of_str recs) (\<lambda>rs.
                Option.bind (as_score score) (\<lambda>sc.
                Option.bind (as_list_of_str lims) (\<lambda>ls.
                  Some \<lparr>query = q, executive_summary = report_content,
                        detailed_findings = collected_data (ctx s), recommendations = rs,
                        report_sources = all_sources (research_steps (ctx s)),
                        report_research_steps = research_steps (ctx s),
                        confidence_score = sc, limitations = ls\<rparr>)))) of
             None \<Rightarrow> Inl ValidationError
           | Some r \<Rightarrow> Inr r))))"

text \<open>The \<^verbatim>\<open>try\<close> of \<^verbatim>\<open>_generate_final_report\<close>.\<close>

definition report_try :: "env \<Rightarrow> agent_state \<Rightarrow> (pyexc + research_report) \<times> agent_state" where
  "report_try ev s =
     (case call_llm ev Report s of
        (Inl e, s1) \<Rightarrow> (Inl e, s1)
      | (Inr response, s1) \<Rightarrow>
          (case content response of
             None \<Rightarrow> (Inl (RuntimeError ''LLM returned no report content''), s1)
           | Some c \<Rightarrow> (build_report (py_strip c) s1, s1)))"

text \<open>
  The report built by the handler. It is validated like any other, so it cannot be built
  when the query is no longer a string.
\<close>

definition degraded_report :: "agent_state \<Rightarrow> pyexc + research_report" where
  "degraded_report s =
     (case as_str (original_query (ctx s)) of
        None \<Rightarrow> Inl ValidationError
      | Some q \<Rightarrow>
          Inr \<lparr>query = q, executive_summary = ''Error generating report'',
               detailed_findings = collected_data (ctx s), recommendations = [],
               report_sources = [], report_research_steps = research_steps (ctx s),
               confidence_score = 0, limitations = [''Failed to generate complete report'']\<rparr>)"

text \<open>
  \<^verbatim>\<open>_generate_final_report\<close>: the prompt dumps the analysis block before the \<^verbatim>\<open>try\<close>.
\<close>

definition generate_final_report ::
  "env \<Rightarrow> agent_state \<Rightarrow> (pyexc + research_report) \<times> agent_state" where
  "generate_final_report ev s =
     (if \<not> json_serializable (get_data s ''analysis'' (PDict [])) then (Inl TypeError, s)
      else (case report_try ev s of
              (Inr r, s1) \<Rightarrow> (Inr r, s1)
            | (Inl e, s1) \<Rightarrow>
                (let s2 = log_in ERROR (''Error generating report: '' @ exc_str ev e) s1
                 in (degraded_report s2, s2))))"

text \<open>
  \<^verbatim>\<open>run\<close>: the client's session is opened on entry and closed on exit, whatever happens
  in between; the four phases run in sequence, with no handler of its own.
\<close>

definition initial_state :: "world \<Rightarrow> string \<Rightarrow> agent_state" where
  "initial_state w q =
     \<lparr>ctx = \<lparr>original_query = PStr q, clarified_goals = PList [], research_steps = [],
             collected_data = [], current_focus = None, user_feedback = None\<rparr>,
      wld = w\<lparr>session := SessionOpen\<rparr>\<rparr>"

definition close_session :: "agent_state \<Rightarrow> agent_state" where
  "close_session s = s\<lparr>wld := (wld s)\<lparr>session := SessionClosed\<rparr>\<rparr>"

definition run :: "env \<Rightarrow> world \<Rightarrow> string \<Rightarrow> (pyexc + research_report) \<times> agent_state" where
  "run ev w q =
     (case clarify_goals ev (initial_state w q) of
        (s1, Some e) \<Rightarrow> (Inl e, close_session s1)
      | (s1, None) \<Rightarrow>
          (case conducting_research ev s1 of
             (s2, Some e) \<Rightarrow> (Inl e, close_session s2)
           | (s2, None) \<Rightarrow>
               (case analyse_findings ev s2 of
                  (s3, Some e) \<Rightarrow> (Inl e, close_session s3)
                | (s3, None) \<Rightarrow>
                    (case generate_final_report ev s3 of
                       (r, s4) \<Rightarrow> (r, close_session s4)))))"

section \<open>Concrete scenarios\<close>









section \<open>Properties of the adapter\<close>

text \<open>
  C10. For every integer id, the lookup by id is the lookup by name at the decimal string
  of the id: same result and same effects (session, log).
\<close>

theorem get_pokemon_by_id_is_name_lookup:
  "get_pokemon_by_id ev w (PInt n) = get_pokemon_by_name ev w (PStr (str_int n))"
  by (simp add: get_pokemon_by_id_def py_str_def)

subsection \<open>Determinism and unit conversion of the name lookup\<close>














subsection \<open>Failures of the upstream\<close>





















end
